theory Spec2Isabelle
  imports Complex_Main "HOL-Library.Multiset" "HOL-Library.Product_Lexorder" "HOL-Library.Log_Nat"
begin

section \<open>The weather dashboard: a shallow embedding\<close>

text \<open>
  The repository holds two complete versions of the dashboard script:
  \<^verbatim>\<open>src/src/main.js\<close> (repeated, with doc comments, in \<^verbatim>\<open>src/unnamed/part_000\<close>) and
  the consolidated script \<^verbatim>\<open>src/unnamed/part_001\<close>. Functions that only one of them has
  keep their name; where both define a function of the same name, the one of
  \<^verbatim>\<open>main.js\<close> keeps the name and the one of \<^verbatim>\<open>part_001\<close> carries the suffix \<open>_v2\<close>.

  JavaScript numbers are modelled as \<^typ>\<open>real\<close> (temperatures, wind speeds) and as
  \<^typ>\<open>int\<close> (timestamps, rounded values); strings as \<^typ>\<open>string\<close>. Where the script
  computes with them, every arithmetic operation is followed by the rounding \<open>fl\<close> to
  the nearest double, and a decimal literal stands for the double nearest to it.
\<close>

subsection \<open>Numbers and strings of the host language\<close>

text \<open>\<^verbatim>\<open>Math.round\<close>: the nearest integer, a tie going towards plus infinity.\<close>

definition mathRound :: "real \<Rightarrow> int" where
  "mathRound x = \<lfloor>x + 1 / 2\<rfloor>"

text \<open>\<^verbatim>\<open>Math.max(...xs)\<close> and \<^verbatim>\<open>Math.min(...xs)\<close>; \<open>None\<close> stands for the infinite
  value the empty argument list gives.\<close>

fun mathMax :: "real list \<Rightarrow> real option" where
  "mathMax [] = None"
| "mathMax (x # xs) = Some (fold max xs x)"

fun mathMin :: "real list \<Rightarrow> real option" where
  "mathMin [] = None"
| "mathMin (x # xs) = Some (fold min xs x)"

definition digitChar :: "nat \<Rightarrow> char" where
  "digitChar d = ''0123456789'' ! d"

text \<open>\<^verbatim>\<open>toString\<close> of a non-negative integer, and of an integer.\<close>

fun showNat :: "nat \<Rightarrow> string" where
  "showNat n = (if n < 10 then [digitChar n] else showNat (n div 10) @ [digitChar (n mod 10)])"

definition showInt :: "int \<Rightarrow> string" where
  "showInt i = (if i < 0 then ''-'' @ showNat (nat (- i)) else showNat (nat i))"

definition padStart :: "nat \<Rightarrow> char \<Rightarrow> string \<Rightarrow> string" where
  "padStart targetLength c s = replicate (targetLength - length s) c @ s"

text \<open>The degree sign of the temperature texts, as its two UTF-8 bytes.\<close>

definition deg :: string where
  "deg = [CHR 0xC2, CHR 0xB0]"

text \<open>
  What the script asks of the browser about a point in time (milliseconds since the
  epoch) depends on the time zone and the locale; these functions are parameters of
  the model.
\<close>

record host =
  getHours :: "int \<Rightarrow> nat"
  midnight :: "int \<Rightarrow> int"
  toLocaleDateString :: "int \<Rightarrow> string"
  weekdayShort :: "int \<Rightarrow> string"
  formatDateNow :: string
  numberToString :: "real \<Rightarrow> string"

text \<open>A host in the UTC time zone, used to run the model on concrete inputs.\<close>

definition utc :: host where
  "utc = \<lparr> getHours = (\<lambda>ms. nat ((ms div 3600000) mod 24)),
           midnight = (\<lambda>ms. ms - ms mod 86400000),
           toLocaleDateString = (\<lambda>ms. ''day '' @ showInt (ms div 86400000)),
           weekdayShort = (\<lambda>ms. [''Thu'', ''Fri'', ''Sat'', ''Sun'', ''Mon'', ''Tue'', ''Wed'']
                                  ! nat ((ms div 86400000) mod 7)),
           formatDateNow = ''Thursday, Jan 1, 1970'',
           numberToString = (\<lambda>x. showInt \<lfloor>x\<rfloor>) \<rparr>"

subsection \<open>Double-precision arithmetic\<close>

text \<open>
  The numbers of the script are IEEE 754 doubles: every \<^verbatim>\<open>+\<close>, \<^verbatim>\<open>-\<close>, \<^verbatim>\<open>*\<close> and \<^verbatim>\<open>/\<close>
  returns the double nearest to the exact result, a tie going to the even significand.
  \<open>fl\<close> is that rounding: \<open>ulpExp x\<close> is the binary exponent of the unit in the last
  place at \<open>x\<close> (53 significant bits, \<open>-1074\<close> for the subnormal numbers), found
  from bit lengths by \<open>floorLog2\<close>, the integer part of the binary logarithm.
  Infinity and NaN are not modelled: the model is the script for finite intermediate
  results.
\<close>

definition roundEven :: "real \<Rightarrow> int" where
  "roundEven y =
     (let n = \<lfloor>y\<rfloor>; r = y - of_int n
      in if r < 1 / 2 then n else if 1 / 2 < r then n + 1 else if even n then n else n + 1)"

definition floorLog2 :: "real \<Rightarrow> int" where
  "floorLog2 x = (if 1 \<le> x then bitlen \<lfloor>x\<rfloor> - 1 else - bitlen (\<lceil>1 / x\<rceil> - 1))"

definition pow2 :: "int \<Rightarrow> real" where
  "pow2 e = (if 0 \<le> e then 2 ^ nat e else 1 / 2 ^ nat (- e))"

definition ulpExp :: "real \<Rightarrow> int" where
  "ulpExp x = max (- 1074) (floorLog2 \<bar>x\<bar> - 52)"

definition fl :: "real \<Rightarrow> real" where
  "fl x = (if x = 0 then 0
           else of_int (roundEven (x / pow2 (ulpExp x))) * pow2 (ulpExp x))"

subsection \<open>Unit conversion\<close>

definition celsiusToFahrenheit :: "real \<Rightarrow> int" where
  "celsiusToFahrenheit celsius = mathRound (fl (fl (fl (celsius * 9) / 5) + 32))"

definition fahrenheitToCelsius :: "real \<Rightarrow> int" where
  "fahrenheitToCelsius fahrenheit = mathRound (fl (fl (fl (fahrenheit - 32) * 5) / 9))"

definition mpsToMph :: "real \<Rightarrow> int" where
  "mpsToMph mps = mathRound (fl (mps * fl 2.237))"

definition mpsToKmh :: "real \<Rightarrow> int" where
  "mpsToKmh mps = mathRound (fl (mps * fl 3.6))"

definition mphToKmh :: "real \<Rightarrow> int" where
  "mphToKmh speed = mathRound (fl (speed * fl 1.609))"

definition kmhToMph :: "real \<Rightarrow> int" where
  "kmhToMph speed = mathRound (fl (speed / fl 1.609))"

text \<open>\<^verbatim>\<open>formatTime(date)\<close> of \<^verbatim>\<open>main.js\<close>: \<open>date\<close> is the point in time in
  milliseconds, \<open>current24Hour\<close> the global flag the function reads.\<close>

definition formatTime :: "host \<Rightarrow> bool \<Rightarrow> int \<Rightarrow> string" where
  "formatTime h current24Hour date =
     (let hours = getHours h date in
      if current24Hour then padStart 2 (CHR ''0'') (showNat hours) @ '':00''
      else
        let ampm = (if hours \<ge> 12 then ''PM'' else ''AM'');
            displayHours = (if hours mod 12 = 0 then 12 else hours mod 12)
        in showNat displayHours @ '' '' @ ampm)"

text \<open>\<^verbatim>\<open>formatTime(timestamp)\<close> of \<^verbatim>\<open>part_001\<close>: the timestamp is in seconds, the
  global \<open>currentTimeFormat\<close> is the string \<^verbatim>\<open>"12"\<close> or \<^verbatim>\<open>"24"\<close>.\<close>

definition formatTime_v2 :: "host \<Rightarrow> string \<Rightarrow> int \<Rightarrow> string" where
  "formatTime_v2 h currentTimeFormat timestamp =
     (let date = timestamp * 1000;
          hours = getHours h date in
      if currentTimeFormat = ''24'' then padStart 2 (CHR ''0'') (showNat hours) @ '':00''
      else
        let ampm = (if hours \<ge> 12 then ''PM'' else ''AM'');
            displayHours = (if hours mod 12 = 0 then 12 else hours mod 12)
        in showNat displayHours @ '' '' @ ampm)"

subsection \<open>Objects used as dictionaries, and sorting\<close>

text \<open>
  An object used as a dictionary is the list of its own properties in enumeration order
  (the order of \<^verbatim>\<open>for ... in\<close>, \<^verbatim>\<open>Object.keys\<close> and \<^verbatim>\<open>Object.values\<close>): the
  array-index keys in ascending numeric order first, then the other keys in the order
  of their creation. \<open>assign\<close> is the assignment \<^verbatim>\<open>obj[k] = v\<close> for keys that are not
  array indices; \<open>jsSet\<close> is the assignment for any string key. Keys are assumed not
  to name a member of \<^verbatim>\<open>Object.prototype\<close>.

  Where the keys are numbers (\<^verbatim>\<open>main.js\<close> uses the midnight timestamp), the dictionary
  is keyed by the number itself, and creation order is used: every such dictionary of
  the script is sorted by key before it is read.
\<close>

fun assign :: "'k \<Rightarrow> 'v \<Rightarrow> ('k \<times> 'v) list \<Rightarrow> ('k \<times> 'v) list" where
  "assign k v [] = [(k, v)]"
| "assign k v ((k', v') # rest) =
     (if k' = k then (k, v) # rest else (k', v') # assign k v rest)"

definition indexValue :: "string \<Rightarrow> nat" where
  "indexValue s = foldl (\<lambda>n c. 10 * n + (of_char c - 48)) 0 s"

definition isArrayIndex :: "string \<Rightarrow> bool" where
  "isArrayIndex s =
     (s \<noteq> [] \<and> list_all (\<lambda>c. c \<in> set ''0123456789'') s
      \<and> (s = ''0'' \<or> hd s \<noteq> CHR ''0'') \<and> indexValue s < 2 ^ 32 - 1)"

fun insertIndex :: "string \<Rightarrow> 'v \<Rightarrow> (string \<times> 'v) list \<Rightarrow> (string \<times> 'v) list" where
  "insertIndex k v [] = [(k, v)]"
| "insertIndex k v ((k', v') # rest) =
     (if isArrayIndex k' \<and> indexValue k' < indexValue k
      then (k', v') # insertIndex k v rest
      else (k, v) # (k', v') # rest)"

definition jsSet :: "string \<Rightarrow> 'v \<Rightarrow> (string \<times> 'v) list \<Rightarrow> (string \<times> 'v) list" where
  "jsSet k v obj =
     (if isArrayIndex k \<and> map_of obj k = None then insertIndex k v obj else assign k v obj)"

text \<open>
  \<^verbatim>\<open>Array.prototype.sort(compare)\<close>: the language requires a stable sort, so for a
  consistent comparison function the result is the one of a stable insertion sort.
\<close>

fun insertCmp :: "('a \<Rightarrow> 'a \<Rightarrow> int) \<Rightarrow> 'a \<Rightarrow> 'a list \<Rightarrow> 'a list" where
  "insertCmp cmp x [] = [x]"
| "insertCmp cmp x (y # ys) =
     (if cmp x y \<le> 0 then x # y # ys else y # insertCmp cmp x ys)"

fun sortCmp :: "('a \<Rightarrow> 'a \<Rightarrow> int) \<Rightarrow> 'a list \<Rightarrow> 'a list" where
  "sortCmp cmp [] = []"
| "sortCmp cmp (x # xs) = insertCmp cmp x (sortCmp cmp xs)"

text \<open>The order in which the distinct keys of a sequence are first seen.\<close>

definition firstSeen :: "'k list \<Rightarrow> 'k list" where
  "firstSeen ks = foldl (\<lambda>seen k. if k \<in> set seen then seen else seen @ [k]) [] ks"

subsection \<open>Forecast samples and day buckets\<close>

text \<open>A sample of the forecast list: \<^verbatim>\<open>dt\<close> (seconds since the epoch),
  \<^verbatim>\<open>main.temp\<close> and \<^verbatim>\<open>weather[0].icon\<close>.\<close>

record forecast =
  dt :: int
  temp :: real
  icon :: string

text \<open>\<^verbatim>\<open>groupForecastByDay(data)\<close> of \<^verbatim>\<open>part_001\<close>; the argument is \<^verbatim>\<open>data.list\<close>.\<close>

definition groupForecastByDay :: "host \<Rightarrow> forecast list \<Rightarrow> forecast list list" where
  "groupForecastByDay h data_list =
     (let dailyData =
            foldl (\<lambda>dailyData item.
                     let date = dt item * 1000;
                         dateKey = toLocaleDateString h date
                     in case map_of dailyData dateKey of
                          None \<Rightarrow> jsSet dateKey [item] dailyData
                        | Some items \<Rightarrow> jsSet dateKey (items @ [item]) dailyData)
                  [] data_list
      in map snd dailyData)"

text \<open>The grouping at the head of \<^verbatim>\<open>updateHourlyForecast\<close> of \<^verbatim>\<open>main.js\<close>: the
  dictionary \<open>dailyForecasts\<close> and the sorted array \<open>sortedDays\<close> of its keys.\<close>

definition dailyForecasts :: "host \<Rightarrow> forecast list \<Rightarrow> (int \<times> forecast list) list" where
  "dailyForecasts h forecastData_list =
     foldl (\<lambda>dailyForecasts forecast.
              let forecastDate = dt forecast * 1000;
                  dateKey = midnight h forecastDate
              in case map_of dailyForecasts dateKey of
                   None \<Rightarrow> assign dateKey [forecast] dailyForecasts
                 | Some fs \<Rightarrow> assign dateKey (fs @ [forecast]) dailyForecasts)
           [] forecastData_list"

definition sortedDays :: "host \<Rightarrow> forecast list \<Rightarrow> int list" where
  "sortedDays h forecastData_list =
     sortCmp (\<lambda>a b. a - b) (map fst (dailyForecasts h forecastData_list))"

text \<open>The day buckets of \<^verbatim>\<open>main.js\<close> in the order of \<open>sortedDays\<close>.\<close>

definition sortedBuckets :: "host \<Rightarrow> forecast list \<Rightarrow> forecast list list" where
  "sortedBuckets h forecastData_list =
     map (\<lambda>key. case map_of (dailyForecasts h forecastData_list) key of
                  None \<Rightarrow> [] | Some fs \<Rightarrow> fs)
         (sortedDays h forecastData_list)"

subsection \<open>The hourly view\<close>

definition weatherIconMap :: "string \<Rightarrow> string option" where
  "weatherIconMap = map_of
     [(''01d'', ''icon-sunny.webp''), (''01n'', ''full-moon.png''),
      (''02d'', ''icon-partly-cloudy.webp''), (''02n'', ''icon-partly-cloudy.webp''),
      (''03d'', ''cloudy.png''), (''03n'', ''cloudy.png''),
      (''04d'', ''icon-overcast.webp''), (''04n'', ''icon-overcast.webp''),
      (''09d'', ''icon-drizzle.webp''), (''09n'', ''icon-drizzle.webp''),
      (''10d'', ''icon-rain.webp''), (''10n'', ''icon-rain.webp''),
      (''11d'', ''icon-storm.webp''), (''11n'', ''icon-storm.webp''),
      (''13d'', ''icon-snow.webp''), (''13n'', ''icon-snow.webp''),
      (''50d'', ''icon-fog.webp''), (''50n'', ''icon-fog.webp'')]"

text \<open>An hourly card: its three texts and its \<^verbatim>\<open>style.display\<close>.\<close>

record hourlyCard =
  hourlyTime :: string
  hourlyTemp :: string
  hourlyIcon :: "string option"
  cardDisplay :: string

text \<open>\<^verbatim>\<open>main.js\<close>: the samples \<open>hourlyData\<close> that \<^verbatim>\<open>updateHourlyForecast\<close> selects for
  the day index, with its fallback to the first eight samples of the whole list.\<close>

definition hourlyData :: "host \<Rightarrow> forecast list \<Rightarrow> nat \<Rightarrow> forecast list" where
  "hourlyData h forecastData_list dayIndex =
     (let dailyForecasts = dailyForecasts h forecastData_list;
          sortedDays = sortedDays h forecastData_list;
          selectedDayForecasts =
            (if dayIndex < length sortedDays
             then (case map_of dailyForecasts (sortedDays ! dayIndex) of
                     Some fs \<Rightarrow> fs
                   | None \<Rightarrow> take 8 forecastData_list)
             else take 8 forecastData_list)
      in take 8 selectedDayForecasts)"

definition updateHourlyForecast ::
  "host \<Rightarrow> bool \<Rightarrow> forecast list \<Rightarrow> nat \<Rightarrow> hourlyCard list \<Rightarrow> hourlyCard list" where
  "updateHourlyForecast h current24Hour forecastData_list dayIndex hourlyCards =
     foldl (\<lambda>cards (index, forecast).
              if index \<ge> length cards then cards
              else
                let card = cards ! index;
                    timestamp = dt forecast * 1000;
                    time = formatTime h current24Hour timestamp;
                    temp = mathRound (temp forecast);
                    iconCode = icon forecast;
                    iconPath = weatherIconMap iconCode
                in cards[index := card\<lparr>hourlyTime := time,
                                         hourlyTemp := showInt temp @ deg,
                                         hourlyIcon := iconPath\<rparr>])
           hourlyCards
           (enumerate 0 (hourlyData h forecastData_list dayIndex))"

text \<open>\<^verbatim>\<open>part_001\<close>: the bucket \<open>selectedDayItems\<close> that \<^verbatim>\<open>updateHourlyForecast\<close>
  reads at the day index (\<open>None\<close> for \<^verbatim>\<open>undefined\<close>), and the update of the cards.\<close>

definition selectedDayItems :: "host \<Rightarrow> forecast list \<Rightarrow> nat \<Rightarrow> forecast list option" where
  "selectedDayItems h data_list dayIndex =
     (let daysArray = groupForecastByDay h data_list
      in if dayIndex < length daysArray then Some (daysArray ! dayIndex) else None)"

definition updateHourlyForecast_v2 ::
  "host \<Rightarrow> string \<Rightarrow> string \<Rightarrow> forecast list \<Rightarrow> nat \<Rightarrow> hourlyCard list \<Rightarrow> hourlyCard list" where
  "updateHourlyForecast_v2 h currentUnit currentTimeFormat data_list dayIndex hourlyCards =
     (let selectedDayItems = selectedDayItems h data_list dayIndex
      in map (\<lambda>(index, card).
                let forecast =
                      (case selectedDayItems of
                         None \<Rightarrow> None
                       | Some items \<Rightarrow> if index < length items then Some (items ! index) else None)
                in case forecast of
                     Some f \<Rightarrow>
                       let t = mathRound (temp f);
                           t' = (if currentUnit = ''fahrenheit''
                                 then celsiusToFahrenheit (of_int t) else t)
                       in card\<lparr>cardDisplay := ''flex'',
                                hourlyIcon := weatherIconMap (icon f),
                                hourlyTemp := showInt t' @ deg,
                                hourlyTime := formatTime_v2 h currentTimeFormat (dt f)\<rparr>
                   | None \<Rightarrow> card\<lparr>cardDisplay := ''none''\<rparr>)
             (enumerate 0 hourlyCards))"

subsection \<open>The daily view\<close>

text \<open>\<^verbatim>\<open>getMostCommonIcon(icons)\<close> of \<^verbatim>\<open>main.js\<close>. \<open>iconCounts\<close> is its dictionary
  \<open>counts\<close>; the result is \<open>None\<close> where the script returns \<^verbatim>\<open>undefined\<close>.\<close>

definition iconCounts :: "string list \<Rightarrow> (string \<times> nat) list" where
  "iconCounts icons =
     foldl (\<lambda>counts icon.
              jsSet icon ((case map_of counts icon of None \<Rightarrow> 0 | Some c \<Rightarrow> c) + 1) counts)
           [] icons"

definition getMostCommonIcon :: "string list \<Rightarrow> string option" where
  "getMostCommonIcon icons =
     (let counts = iconCounts icons;
          mostCommon = (case icons of [] \<Rightarrow> None | first # _ \<Rightarrow> Some first);
          highestCount = (0 :: nat)
      in fst (foldl (\<lambda>(mostCommon, highestCount) (icon, count).
                       if count > highestCount then (Some icon, count)
                       else (mostCommon, highestCount))
                    (mostCommon, highestCount) counts))"

text \<open>The rounded extremes of a day's temperatures, as both scripts compute them:
  \<^verbatim>\<open>Math.round(Math.max(...temps))\<close> and \<^verbatim>\<open>Math.round(Math.min(...temps))\<close>.\<close>

definition maxTemp :: "real list \<Rightarrow> int option" where
  "maxTemp temps = map_option mathRound (mathMax temps)"

definition minTemp :: "real list \<Rightarrow> int option" where
  "minTemp temps = map_option mathRound (mathMin temps)"

definition showMax :: "int option \<Rightarrow> string" where
  "showMax t = (case t of None \<Rightarrow> ''-Infinity'' | Some n \<Rightarrow> showInt n)"

definition showMin :: "int option \<Rightarrow> string" where
  "showMin t = (case t of None \<Rightarrow> ''Infinity'' | Some n \<Rightarrow> showInt n)"

record dayData =
  temps :: "real list"
  icons :: "string list"
  date :: int

record dailyCard =
  dayName :: string
  dayTempMax :: string
  dayTempMin :: string
  dayIcon :: "string option"

text \<open>\<^verbatim>\<open>updateDailyForecast\<close> of \<^verbatim>\<open>main.js\<close>: the dictionary \<open>dailyData\<close>, and the
  update of the daily cards from its values sorted by date.\<close>

definition dailyData :: "host \<Rightarrow> forecast list \<Rightarrow> (int \<times> dayData) list" where
  "dailyData h forecastData_list =
     foldl (\<lambda>dailyData forecast.
              let forecastDate = dt forecast * 1000;
                  dateAtMidnight = midnight h forecastDate;
                  dateKey = dateAtMidnight;
                  entry = (case map_of dailyData dateKey of
                             None \<Rightarrow> \<lparr>temps = [], icons = [], date = dateAtMidnight\<rparr>
                           | Some e \<Rightarrow> e)
              in assign dateKey
                   (entry\<lparr>temps := temps entry @ [temp forecast],
                          icons := icons entry @ [icon forecast]\<rparr>)
                   dailyData)
           [] forecastData_list"

definition updateDailyForecast :: "host \<Rightarrow> forecast list \<Rightarrow> dailyCard list \<Rightarrow> dailyCard list" where
  "updateDailyForecast h forecastData_list dailyCards =
     (let daysArray = sortCmp (\<lambda>a b. date a - date b) (map snd (dailyData h forecastData_list));
          next7Days = take 7 daysArray
      in foldl (\<lambda>cards (index, dayData).
                  if index \<ge> length cards then cards
                  else
                    let mostCommonIcon = getMostCommonIcon (icons dayData);
                        iconPath = (case mostCommonIcon of
                                      None \<Rightarrow> None | Some code \<Rightarrow> weatherIconMap code)
                    in cards[index := \<lparr>dayName = weekdayShort h (date dayData),
                                        dayTempMax = showMax (maxTemp (temps dayData)) @ deg,
                                        dayTempMin = showMin (minTemp (temps dayData)) @ deg,
                                        dayIcon = iconPath\<rparr>])
               dailyCards (enumerate 0 next7Days))"

text \<open>\<^verbatim>\<open>updateDailyForecast\<close> of \<^verbatim>\<open>part_001\<close>. \<open>dayIconCode\<close> is the icon code it
  shows for a day (the one of the day's first sample); \<open>dayMaxTemp\<close> and
  \<open>dayMinTemp\<close> are the values it shows, converted when the unit is Fahrenheit.\<close>

definition dayIconCode :: "forecast list \<Rightarrow> string option" where
  "dayIconCode dayItems = (case dayItems of [] \<Rightarrow> None | first # _ \<Rightarrow> Some (icon first))"

definition dayMaxTemp :: "string \<Rightarrow> forecast list \<Rightarrow> int option" where
  "dayMaxTemp currentUnit dayItems =
     (let temps = map temp dayItems;
          maxTemp = maxTemp temps
      in if currentUnit = ''fahrenheit''
         then map_option (\<lambda>t. celsiusToFahrenheit (of_int t)) maxTemp else maxTemp)"

definition dayMinTemp :: "string \<Rightarrow> forecast list \<Rightarrow> int option" where
  "dayMinTemp currentUnit dayItems =
     (let temps = map temp dayItems;
          minTemp = minTemp temps
      in if currentUnit = ''fahrenheit''
         then map_option (\<lambda>t. celsiusToFahrenheit (of_int t)) minTemp else minTemp)"

definition updateDailyForecast_v2 ::
  "host \<Rightarrow> string \<Rightarrow> forecast list \<Rightarrow> dailyCard list \<Rightarrow> dailyCard list" where
  "updateDailyForecast_v2 h currentUnit data_list dailyCards =
     (let daysArray = groupForecastByDay h data_list
      in map (\<lambda>(index, card).
                if index < length daysArray \<and> length (daysArray ! index) > 0
                then
                  let dayItems = daysArray ! index
                  in card\<lparr>dayName := (case dayItems of
                                        [] \<Rightarrow> dayName card
                                      | first # _ \<Rightarrow> weekdayShort h (dt first * 1000)),
                           dayIcon := (case dayIconCode dayItems of
                                        None \<Rightarrow> None | Some code \<Rightarrow> weatherIconMap code),
                           dayTempMax := showMax (dayMaxTemp currentUnit dayItems) @ deg,
                           dayTempMin := showMin (dayMinTemp currentUnit dayItems) @ deg\<rparr>
                else card\<lparr>dayName := ''N/A'',
                          dayIcon := Some ''icon-sunny.webp'',
                          dayTempMax := ''N/A'',
                          dayTempMin := ''N/A''\<rparr>)
             (enumerate 0 dailyCards))"

subsection \<open>Ranking of city suggestions\<close>

text \<open>A suggestion of the geocoding service; \<open>population\<close> is \<open>None\<close> where the
  property is missing.\<close>

record city =
  name :: string
  country :: string
  population :: "int option"

definition PRIORITY_COUNTRIES :: "string list" where
  "PRIORITY_COUNTRIES =
     [''United Kingdom'', ''UK'', ''England'', ''Scotland'', ''Wales'', ''Northern Ireland'',
      ''United States'', ''USA'', ''Canada'', ''Australia'', ''Germany'', ''France'', ''Spain'',
      ''Italy'', ''Netherlands'', ''Belgium'', ''Sweden'', ''Norway'', ''Denmark'',
      ''Switzerland'', ''Poland'', ''Portugal'', ''Ireland'']"

text \<open>The comparison function of \<^verbatim>\<open>prioritizeCities\<close>, the list of priority countries
  being a parameter; \<open>populationOr0\<close> is \<^verbatim>\<open>(c.population || 0)\<close>.\<close>

definition populationOr0 :: "city \<Rightarrow> int" where
  "populationOr0 c = (case population c of None \<Rightarrow> 0 | Some p \<Rightarrow> p)"

definition compareCities :: "string list \<Rightarrow> city \<Rightarrow> city \<Rightarrow> int" where
  "compareCities priority a b =
     (let aPriority = (country a \<in> set priority);
          bPriority = (country b \<in> set priority)
      in if aPriority \<and> \<not> bPriority then - 1
         else if \<not> aPriority \<and> bPriority then 1
         else populationOr0 b - populationOr0 a)"

definition prioritizeCitiesWith :: "string list \<Rightarrow> city list \<Rightarrow> city list" where
  "prioritizeCitiesWith priority cities = sortCmp (compareCities priority) cities"

definition prioritizeCities :: "city list \<Rightarrow> city list" where
  "prioritizeCities cities = prioritizeCitiesWith PRIORITY_COUNTRIES cities"

subsection \<open>The current-conditions panel\<close>

text \<open>The payload of the current-weather endpoint, as far as the script reads it.\<close>

record currentData =
  data_name :: string
  sys_country :: string
  main_temp :: real
  main_feels_like :: real
  main_humidity :: int
  wind_speed :: real
  rain_1h :: "real option"
  weather_icon :: string

text \<open>The text contents of the elements of the current-conditions panel, and the
  source of its icon.\<close>

record panel =
  locationName :: string
  currentDate :: string
  mainTemperature :: string
  mainWeatherIcon :: "string option"
  feelsLikeTemp :: string
  humidityValue :: string
  windSpeed :: string
  precipitationValue :: string

definition precipitationText :: "host \<Rightarrow> real option \<Rightarrow> string" where
  "precipitationText h rain =
     (case rain of
        None \<Rightarrow> ''0 mm''
      | Some r \<Rightarrow> if r = 0 then ''0 mm'' else numberToString h r @ '' mm'')"

definition updateCurrentWeather :: "host \<Rightarrow> string \<Rightarrow> currentData \<Rightarrow> panel \<Rightarrow> panel" where
  "updateCurrentWeather h currentWindUnit data p =
     (let windSpeedValue = (if currentWindUnit = ''mph'' then mpsToMph (wind_speed data)
                            else mpsToKmh (wind_speed data))
      in p\<lparr>locationName := data_name data @ '', '' @ sys_country data,
             currentDate := formatDateNow h,
             mainTemperature := showInt (mathRound (main_temp data)) @ deg,
             mainWeatherIcon := weatherIconMap (weather_icon data),
             feelsLikeTemp := showInt (mathRound (main_feels_like data)) @ deg,
             humidityValue := showInt (main_humidity data) @ ''%'',
             windSpeed := showInt windSpeedValue @ '' '' @ currentWindUnit,
             precipitationValue := precipitationText h (rain_1h data)\<rparr>)"

definition updateCurrentWeather_v2 ::
  "host \<Rightarrow> string \<Rightarrow> string \<Rightarrow> currentData \<Rightarrow> panel \<Rightarrow> panel" where
  "updateCurrentWeather_v2 h currentUnit currentSpeedUnit data p =
     (let temp = (if currentUnit = ''fahrenheit''
                  then of_int (celsiusToFahrenheit (main_temp data)) else main_temp data);
          feelsLike = (if currentUnit = ''fahrenheit''
                       then of_int (celsiusToFahrenheit (main_feels_like data))
                       else main_feels_like data);
          windSpeedValue = mathRound (fl (wind_speed data * fl 2.237))
      in p\<lparr>locationName := data_name data @ '', '' @ sys_country data,
             currentDate := formatDateNow h,
             mainTemperature := showInt (mathRound temp) @ deg,
             feelsLikeTemp := showInt (mathRound feelsLike) @ deg,
             humidityValue := showInt (main_humidity data) @ ''%'',
             windSpeed := (if currentSpeedUnit = ''kmh''
                           then showInt (mphToKmh (of_int windSpeedValue)) @ '' km/h''
                           else showInt windSpeedValue @ '' mph''),
             precipitationValue := precipitationText h (rain_1h data),
             mainWeatherIcon := weatherIconMap (weather_icon data)\<rparr>)"

subsection \<open>Fetching the weather\<close>

text \<open>
  The body of an HTTP response once parsed, and the outcome of a \<^verbatim>\<open>fetch\<close>: a transport
  error (the promise rejects), or a response with its \<^verbatim>\<open>ok\<close> flag and its body
  (\<open>None\<close> where \<^verbatim>\<open>json()\<close> rejects). Reading the weather fields of a body that is
  not a weather payload, or the sample list of a body that has none, throws a
  \<^verbatim>\<open>TypeError\<close> before anything is written.
\<close>

datatype json = WeatherJson currentData | ForecastJson "forecast list" | OtherJson

datatype response = NetworkError | Http bool "json option"

definition API_KEY :: string where
  "API_KEY = ''491d823269a39efcdc476377ae1b028c''"

definition BASE_URL :: string where
  "BASE_URL = ''https://api.openweathermap.org/data/2.5''"

definition weatherUrl :: "string \<Rightarrow> string" where
  "weatherUrl cityName = BASE_URL @ ''/weather?q='' @ cityName @ ''&appid='' @ API_KEY @ ''&units=metric''"

definition forecastUrl :: "string \<Rightarrow> string" where
  "forecastUrl cityName = BASE_URL @ ''/forecast?q='' @ cityName @ ''&appid='' @ API_KEY @ ''&units=metric''"

text \<open>
  The state both scripts share: the panel, the cards, the persistent store, the stored
  forecast, the temperature unit, and the trace \<open>requests\<close> of the URLs fetched so far.
  The settings menu, the day menu and the search box are not part of the model.
\<close>

record core =
  panel :: panel
  dailyCards :: "dailyCard list"
  hourlyCards :: "hourlyCard list"
  localStorage :: "string \<rightharpoonup> string"
  globalForecastData :: "json option"
  currentUnit :: string
  requests :: "string list"

record app = core +
  currentWindUnit :: string
  current24Hour :: bool

record app_v2 = core +
  city_v2 :: string
  currentSpeedUnit :: string
  currentTimeFormat :: string
  selectedDay :: string
  loading :: bool

definition dquote :: string where
  "dquote = [CHR 0x22]"

text \<open>The \<^verbatim>\<open>catch\<close> block of \<^verbatim>\<open>fetchWeatherForCity\<close> (\<^verbatim>\<open>main.js\<close>).\<close>

definition showFetchError :: "string \<Rightarrow> panel \<Rightarrow> panel" where
  "showFetchError cityName p =
     p\<lparr>locationName := ''Could not find weather for '' @ dquote @ cityName @ dquote,
        currentDate := ''Please try another city'',
        mainTemperature := ''--'' @ deg,
        feelsLikeTemp := ''--'' @ deg,
        humidityValue := ''--%'',
        windSpeed := ''-- mph'',
        precipitationValue := ''-- mm''\<rparr>"

definition saveLocation :: "string \<Rightarrow> (string \<rightharpoonup> string) \<Rightarrow> (string \<rightharpoonup> string)" where
  "saveLocation cityName store = store(''lastLocation'' \<mapsto> cityName)"

definition fetchWeatherForCity :: "host \<Rightarrow> (string \<Rightarrow> response) \<Rightarrow> string \<Rightarrow> app \<Rightarrow> app" where
  "fetchWeatherForCity h fetch cityName s =
     (let failed = (\<lambda>s :: app. s\<lparr>panel := showFetchError cityName (panel s)\<rparr>);
          s1 = s\<lparr>requests := requests s @ [weatherUrl cityName]\<rparr>
      in case fetch (weatherUrl cityName) of
           NetworkError \<Rightarrow> failed s1
         | Http ok body \<Rightarrow>
             if \<not> ok then failed s1
             else (case body of
                     Some (WeatherJson currentData) \<Rightarrow>
                       let s2 = s1\<lparr>panel := updateCurrentWeather h (currentWindUnit s1)
                                                currentData (panel s1)\<rparr>;
                           s3 = s2\<lparr>requests := requests s2 @ [forecastUrl cityName]\<rparr>
                       in (case fetch (forecastUrl cityName) of
                             NetworkError \<Rightarrow> failed s3
                           | Http ok' body' \<Rightarrow>
                               if \<not> ok' then failed s3
                               else (case body' of
                                       None \<Rightarrow> failed s3
                                     | Some (ForecastJson forecastData_list) \<Rightarrow>
                                         s3\<lparr>globalForecastData := Some (ForecastJson forecastData_list),
                                             hourlyCards := updateHourlyForecast h (current24Hour s3)
                                                              forecastData_list 0 (hourlyCards s3),
                                             dailyCards := updateDailyForecast h forecastData_list
                                                             (dailyCards s3),
                                             localStorage := saveLocation cityName (localStorage s3)\<rparr>
                                     | Some forecastData \<Rightarrow>
                                         failed (s3\<lparr>globalForecastData := Some forecastData\<rparr>)))
                   | _ \<Rightarrow> failed s1))"

text \<open>\<^verbatim>\<open>loadSettings()\<close> and the start of the application (\<^verbatim>\<open>main.js\<close>).\<close>

definition loadSettings :: "app \<Rightarrow> string \<times> app" where
  "loadSettings s =
     (let savedUnit = localStorage s ''temperatureUnit'';
          savedWindUnit = localStorage s ''windUnit'';
          saved24Hour = localStorage s ''24hourFormat'';
          savedLocation = localStorage s ''lastLocation'';
          s1 = (case savedUnit of
                  None \<Rightarrow> s | Some u \<Rightarrow> if u = [] then s else s\<lparr>currentUnit := u\<rparr>);
          s2 = (case savedWindUnit of
                  None \<Rightarrow> s1 | Some w \<Rightarrow> if w = [] then s1 else s1\<lparr>currentWindUnit := w\<rparr>);
          s3 = (case saved24Hour of
                  None \<Rightarrow> s2
                | Some f \<Rightarrow> if f = [] then s2 else s2\<lparr>current24Hour := (f = ''true'')\<rparr>)
      in ((case savedLocation of
             None \<Rightarrow> ''Cardiff''
           | Some l \<Rightarrow> if l = [] then ''Cardiff'' else l), s3))"

definition initializeApp :: "host \<Rightarrow> (string \<Rightarrow> response) \<Rightarrow> app \<Rightarrow> app" where
  "initializeApp h fetch s =
     (let (lastLocation, s') = loadSettings s
      in fetchWeatherForCity h fetch lastLocation s')"

text \<open>\<^verbatim>\<open>fetchWeather()\<close> of \<^verbatim>\<open>part_001\<close>, which reads the global \<open>city\<close>, and the
  start of that script: the globals are read from the persistent store, then the
  weather is fetched.\<close>

definition showFetchError_v2 :: "string \<Rightarrow> panel \<Rightarrow> panel" where
  "showFetchError_v2 city p =
     p\<lparr>locationName := ''Could not find '' @ dquote @ city @ dquote,
        currentDate := ''Please try another city'',
        mainTemperature := ''--'' @ deg,
        feelsLikeTemp := ''--'' @ deg,
        humidityValue := ''--%'',
        windSpeed := ''-- mph'',
        precipitationValue := ''-- mm''\<rparr>"

definition fetchWeather :: "host \<Rightarrow> (string \<Rightarrow> response) \<Rightarrow> app_v2 \<Rightarrow> app_v2" where
  "fetchWeather h fetch s =
     (let city = city_v2 s;
          failed = (\<lambda>s :: app_v2. s\<lparr>panel := showFetchError_v2 city (panel s)\<rparr>);
          s0 = s\<lparr>loading := True\<rparr>;
          s1 = s0\<lparr>requests := requests s0 @ [weatherUrl city]\<rparr>;
          result =
            (case fetch (weatherUrl city) of
               NetworkError \<Rightarrow> failed s1
             | Http ok body \<Rightarrow>
                 if \<not> ok then failed s1
                 else (case body of
                         None \<Rightarrow> failed s1
                       | Some currentData \<Rightarrow>
                           let s2 = s1\<lparr>requests := requests s1 @ [forecastUrl city]\<rparr>
                           in (case fetch (forecastUrl city) of
                                 NetworkError \<Rightarrow> failed s2
                               | Http ok' None \<Rightarrow> failed s2
                               | Http ok' (Some forecastData) \<Rightarrow>
                                   let s3 = s2\<lparr>globalForecastData := Some forecastData\<rparr>
                                   in (case currentData of
                                         WeatherJson cur \<Rightarrow>
                                           let s4 = s3\<lparr>panel := updateCurrentWeather_v2 h (currentUnit s3)
                                                                    (currentSpeedUnit s3) cur (panel s3)\<rparr>
                                           in (case forecastData of
                                                 ForecastJson data_list \<Rightarrow>
                                                   s4\<lparr>dailyCards := updateDailyForecast_v2 h (currentUnit s4)
                                                                      data_list (dailyCards s4),
                                                       hourlyCards := updateHourlyForecast_v2 h (currentUnit s4)
                                                                       (currentTimeFormat s4) data_list 0
                                                                       (hourlyCards s4),
                                                       localStorage := (localStorage s4)(''lastCity'' \<mapsto> city),
                                                       selectedDay := ''Today''\<rparr>
                                               | _ \<Rightarrow> failed s4)
                                       | _ \<Rightarrow> failed s3))))
      in result\<lparr>loading := False\<rparr>)"

definition orDefault :: "string option \<Rightarrow> string \<Rightarrow> string" where
  "orDefault v d = (case v of None \<Rightarrow> d | Some x \<Rightarrow> if x = [] then d else x)"

definition initializeApp_v2 :: "host \<Rightarrow> (string \<Rightarrow> response) \<Rightarrow> app_v2 \<Rightarrow> app_v2" where
  "initializeApp_v2 h fetch s =
     fetchWeather h fetch
       (s\<lparr>city_v2 := orDefault (localStorage s ''lastCity'') ''Cardiff'',
          globalForecastData := None,
          currentUnit := orDefault (localStorage s ''tempUnit'') ''celsius'',
          currentSpeedUnit := orDefault (localStorage s ''windUnit'') ''mph'',
          currentTimeFormat := orDefault (localStorage s ''timeFormat'') ''12''\<rparr>)"

subsection \<open>Auxiliary definitions for the proofs\<close>

text \<open>The step that the grouping iterations share: append the item to the bucket of its
  key, creating the bucket when the key is new.\<close>

definition pushStep :: "('a \<Rightarrow> 'k) \<Rightarrow> ('k \<times> 'a list) list \<Rightarrow> 'a \<Rightarrow> ('k \<times> 'a list) list" where
  "pushStep key d x =
     (case map_of d (key x) of
        None \<Rightarrow> assign (key x) [x] d
      | Some ys \<Rightarrow> assign (key x) (ys @ [x]) d)"

text \<open>Concrete inputs on which the model is run.\<close>

definition threeSamples :: "forecast list" where
  "threeSamples =
     [\<lparr>dt = 0, temp = 5, icon = ''01d''\<rparr>, \<lparr>dt = 3600, temp = 7, icon = ''02d''\<rparr>,
      \<lparr>dt = 86400, temp = 6, icon = ''01d''\<rparr>]"

text \<open>The same samples out of order: the sample of the second day comes first.\<close>

definition shuffledSamples :: "forecast list" where
  "shuffledSamples =
     [\<lparr>dt = 86400, temp = 6, icon = ''01d''\<rparr>, \<lparr>dt = 0, temp = 5, icon = ''01d''\<rparr>,
      \<lparr>dt = 3600, temp = 7, icon = ''02d''\<rparr>]"

definition blankCard :: hourlyCard where
  "blankCard = \<lparr>hourlyTime = [], hourlyTemp = [], hourlyIcon = None, cardDisplay = []\<rparr>"

text \<open>The representative code as the specification words it: a code whose number of
  occurrences is the highest, and among those the one that occurs first.\<close>

definition isMode :: "string list \<Rightarrow> string \<Rightarrow> bool" where
  "isMode codes c = list_all (\<lambda>d. count_list codes d \<le> count_list codes c) codes"

definition firstMode :: "string list \<Rightarrow> string option" where
  "firstMode codes = find (isMode codes) codes"

definition blankDailyCard :: dailyCard where
  "blankDailyCard = \<lparr>dayName = [], dayTempMax = [], dayTempMin = [], dayIcon = None\<rparr>"

text \<open>The three samples of one day, a clear one and then two rainy ones.\<close>

definition rainyDay :: "forecast list" where
  "rainyDay =
     [\<lparr>dt = 0, temp = 18.2, icon = ''01d''\<rparr>, \<lparr>dt = 10800, temp = 20.9, icon = ''10d''\<rparr>,
      \<lparr>dt = 21600, temp = 16.4, icon = ''10d''\<rparr>]"

text \<open>The sort key that the comparison function of \<^verbatim>\<open>prioritizeCities\<close> amounts to,
  ordered lexicographically: priority countries first, then the larger population.\<close>

definition rankKey :: "string list \<Rightarrow> city \<Rightarrow> nat \<times> int" where
  "rankKey priority c = (if country c \<in> set priority then 0 else 1, - populationOr0 c)"

definition parisFrance :: city where
  "parisFrance = \<lparr>name = ''Paris'', country = ''France'', population = Some 2000000\<rparr>"

definition parisUSA :: city where
  "parisUSA = \<lparr>name = ''Paris'', country = ''USA'', population = Some 25000\<rparr>"

text \<open>The sentinel texts of the five numeric fields of the panel, and of its date line.\<close>

definition sentinelFields :: "panel \<Rightarrow> bool" where
  "sentinelFields p =
     (currentDate p = ''Please try another city''
      \<and> mainTemperature p = ''--'' @ deg \<and> feelsLikeTemp p = ''--'' @ deg
      \<and> humidityValue p = ''--%'' \<and> windSpeed p = ''-- mph''
      \<and> precipitationValue p = ''-- mm'')"

text \<open>A page that shows one daily card of an earlier search, and two networks: one
  that answers every request with a non-success status, one that is unreachable.\<close>

definition blankPanel :: panel where
  "blankPanel = \<lparr>locationName = [], currentDate = [], mainTemperature = [], mainWeatherIcon = None,
                  feelsLikeTemp = [], humidityValue = [], windSpeed = [], precipitationValue = []\<rparr>"

definition shownCard :: dailyCard where
  "shownCard = \<lparr>dayName = ''Thu'', dayTempMax = ''21'' @ deg, dayTempMin = ''16'' @ deg,
                 dayIcon = Some ''icon-rain.webp''\<rparr>"

definition shownApp :: app where
  "shownApp = \<lparr>panel = blankPanel, dailyCards = [shownCard], hourlyCards = [blankCard],
                localStorage = Map.empty, globalForecastData = None, currentUnit = ''celsius'',
                requests = [], currentWindUnit = ''mph'', current24Hour = False\<rparr>"

definition shownApp_v2 :: app_v2 where
  "shownApp_v2 = \<lparr>panel = blankPanel, dailyCards = [shownCard], hourlyCards = [blankCard],
                   localStorage = Map.empty, globalForecastData = None, currentUnit = ''celsius'',
                   requests = [], city_v2 = ''Atlantis'', currentSpeedUnit = ''mph'',
                   currentTimeFormat = ''12'', selectedDay = ''Today'', loading = False\<rparr>"

definition notFound :: "string \<Rightarrow> response" where
  "notFound url = Http False (Some OtherJson)"

definition offline :: "string \<Rightarrow> response" where
  "offline url = NetworkError"

text \<open>Two doubles that are not integers: the one just below 2.5, and the one nearest
  to 50.9.\<close>

definition belowTwoAndHalf :: real where
  "belowTwoAndHalf = 5629499534213119 / 2 ^ 51"

definition nearFiftyPointNine :: real where
  "nearFiftyPointNine = 7163538157286195 / 2 ^ 47"

section \<open>Properties\<close>

declare showNat.simps [simp del]

subsection \<open>Unit conversion\<close>

lemma mathRound_round: "mathRound x = round x"
  by (simp add: mathRound_def round_def)

lemma mathRound_nearest: "\<bar>of_int (mathRound x) - x\<bar> \<le> 1 / 2"
  unfolding mathRound_def by linarith

text \<open>The rounding to the nearest double: its error, and the numbers it leaves alone.\<close>

lemma powr_int_nat: "0 \<le> k \<Longrightarrow> (2 powr of_int k :: real) = of_int (2 ^ nat k)"
  by (simp add: powr_real_of_int)

lemma floorLog2_ge1:
  assumes "1 \<le> x"
  shows "floorLog2 x = \<lfloor>log 2 x\<rfloor>"
proof -
  define n where "n = \<lfloor>x\<rfloor>"
  define k where "k = bitlen n - 1"
  have n: "1 \<le> n" using assms by (simp add: n_def)
  then have k0: "0 \<le> k" using bitlen_bounds [of n] unfolding k_def
    by (smt (verit) bitlen_eq_zero_iff bitlen_nonneg)
  have b: "2 ^ nat k \<le> n" "n < 2 ^ nat (k + 1)"
    using bitlen_bounds [of n] n by (simp_all add: k_def)
  have lo: "2 powr of_int k \<le> x"
  proof -
    have "(of_int (2 ^ nat k) :: real) \<le> of_int n" using b(1) by (simp only: of_int_le_iff)
    also have "\<dots> \<le> x" by (simp add: n_def)
    finally show ?thesis using k0 by (simp only: powr_int_nat)
  qed
  have hi: "x < 2 powr of_int (k + 1)"
  proof -
    have "n + 1 \<le> 2 ^ nat (k + 1)" using b(2) by simp
    then have "(of_int (n + 1) :: real) \<le> of_int (2 ^ nat (k + 1))" by (simp only: of_int_le_iff)
    moreover have "x < of_int (n + 1)" by (simp add: n_def)
    ultimately show ?thesis using k0 powr_int_nat [of "k + 1"] by simp
  qed
  have "\<lfloor>log 2 x\<rfloor> = k"
    using assms lo hi by (subst floor_log_eq_powr_iff) simp_all
  then show ?thesis using assms by (simp add: floorLog2_def k_def n_def)
qed

lemma floorLog2_lt1:
  assumes "0 < x" and "x < 1"
  shows "floorLog2 x = \<lfloor>log 2 x\<rfloor>"
proof -
  define y where "y = 1 / x"
  define m where "m = \<lceil>y\<rceil> - 1"
  define k where "k = bitlen m"
  have y: "1 < y" using assms by (simp add: y_def)
  then have m: "1 \<le> m" unfolding m_def by linarith
  have b: "2 ^ nat (k - 1) \<le> m" "m < 2 ^ nat k"
    using bitlen_bounds [of m] m by (simp_all add: k_def)
  have k1: "1 \<le> k" using m unfolding k_def
    by (smt (verit) bitlen_eq_zero_iff bitlen_nonneg)
  have yhi: "y \<le> of_int (2 ^ nat k)"
  proof -
    have "\<lceil>y\<rceil> \<le> 2 ^ nat k" using b(2) by (simp add: m_def)
    then show ?thesis by (simp only: ceiling_le_iff)
  qed
  have ylo: "of_int (2 ^ nat (k - 1)) < y"
  proof -
    have "2 ^ nat (k - 1) < \<lceil>y\<rceil>" using b(1) by (simp add: m_def)
    then show ?thesis by (simp only: less_ceiling_iff)
  qed
  have p1: "(2 powr of_int (- k) :: real) = 1 / of_int (2 ^ nat k)"
    using k1 by (simp add: powr_minus powr_real_of_int inverse_eq_divide)
  have p2: "(2 powr of_int (- k + 1) :: real) = 1 / of_int (2 ^ nat (k - 1))"
  proof -
    have "(2 powr of_int (- k + 1) :: real) = 2 powr (- of_int (k - 1))" by simp
    also have "\<dots> = 1 / of_int (2 ^ nat (k - 1))"
      using k1 by (simp only: powr_minus powr_int_nat inverse_eq_divide) 
    finally show ?thesis .
  qed
  have x: "x = 1 / y" using assms by (simp add: y_def)
  have ypos: "0 < y" using y by simp
  have lo: "2 powr of_int (- k) \<le> x"
    unfolding p1 x using yhi ypos by (simp add: frac_le)
  have hi: "x < 2 powr of_int (- k + 1)"
    unfolding p2 x using ylo ypos by (simp add: frac_less2)
  have "\<lfloor>log 2 x\<rfloor> = - k"
    using assms(1) lo hi by (subst floor_log_eq_powr_iff) simp_all
  then show ?thesis using assms by (simp add: floorLog2_def k_def m_def y_def)
qed

lemma floorLog2_log: "0 < x \<Longrightarrow> floorLog2 x = \<lfloor>log 2 x\<rfloor>"
  using floorLog2_ge1 [of x] floorLog2_lt1 [of x] by (cases "1 \<le> x") simp_all

lemma pow2_powr: "pow2 e = 2 powr of_int e"
  by (simp add: pow2_def powr_real_of_int inverse_eq_divide)

lemma ulpExp_log: "x \<noteq> 0 \<Longrightarrow> ulpExp x = max (- 1074) (\<lfloor>log 2 \<bar>x\<bar>\<rfloor> - 52)"
  by (simp add: ulpExp_def floorLog2_log)

lemma fl_powr:
  "fl x = (if x = 0 then 0
           else of_int (roundEven (x / 2 powr of_int (ulpExp x))) * 2 powr of_int (ulpExp x))"
  by (simp add: fl_def pow2_powr)

lemma roundEven_near: "\<bar>of_int (roundEven y) - y\<bar> \<le> 1 / 2"
  unfolding roundEven_def Let_def by (auto; linarith)

lemma roundEven_of_int [simp]: "roundEven (of_int m) = m"
  by (simp add: roundEven_def)

lemma ulpExp_ge: "- 1074 \<le> ulpExp x"
  by (simp add: ulpExp_def)

lemma ulpExp_le:
  assumes "x \<noteq> 0" and "\<bar>x\<bar> < 2 powr of_int K" and "- 1021 \<le> K"
  shows "ulpExp x \<le> K - 53"
proof -
  have "log 2 \<bar>x\<bar> < of_int K"
    using assms(1,2) by (simp add: log_less_iff)
  then have "\<lfloor>log 2 \<bar>x\<bar>\<rfloor> < K" by linarith
  then show ?thesis using assms(1,3) by (simp add: ulpExp_log)
qed

lemma ulpExp_eq:
  assumes "2 powr of_int (E + 52) \<le> \<bar>x\<bar>" and "\<bar>x\<bar> < 2 powr of_int (E + 53)" and "- 1074 \<le> E"
  shows "ulpExp x = E"
proof -
  have pos: "0 < \<bar>x\<bar>" using assms(1) by (smt (verit) powr_gt_zero)
  have "\<lfloor>log 2 \<bar>x\<bar>\<rfloor> = E + 52"
    using assms(1,2) pos by (subst floor_log_eq_powr_iff) (simp_all add: add.commute)
  moreover have "x \<noteq> 0" using pos by simp
  ultimately show ?thesis using assms(3) by (simp add: ulpExp_log)
qed

lemma fl_error:
  "\<bar>fl x - x\<bar> \<le> 2 powr of_int (ulpExp x) / 2"
proof (cases "x = 0")
  case True
  then show ?thesis by (simp add: fl_powr)
next
  case False
  let ?p = "2 powr of_int (ulpExp x) :: real"
  have p: "0 < ?p" by simp
  have "fl x - x = (of_int (roundEven (x / ?p)) - x / ?p) * ?p"
    using False p by (simp add: fl_powr field_simps)
  then have "\<bar>fl x - x\<bar> = \<bar>of_int (roundEven (x / ?p)) - x / ?p\<bar> * ?p"
    using p by (simp add: abs_mult)
  also have "\<dots> \<le> (1 / 2) * ?p"
    using roundEven_near [of "x / ?p"] p by (intro mult_right_mono) auto
  finally show ?thesis by simp
qed

lemma fl_error_bound:
  assumes "\<bar>x\<bar> < 2 powr of_int K" and "- 1021 \<le> K"
  shows "\<bar>fl x - x\<bar> \<le> 2 powr of_int (K - 54)"
proof (cases "x = 0")
  case True
  then show ?thesis by (simp add: fl_powr)
next
  case False
  have "ulpExp x \<le> K - 53" using False assms by (rule ulpExp_le)
  then have "2 powr of_int (ulpExp x) \<le> (2 powr of_int (K - 53) :: real)"
    by simp
  moreover have "(2 powr of_int (K - 53) :: real) / 2 = 2 powr of_int (K - 54)"
    by (simp add: powr_diff)
  ultimately show ?thesis using fl_error [of x] by linarith
qed

lemma fl_exact:
  assumes "\<bar>m\<bar> < 2 ^ 53" and "- 1074 \<le> e"
  shows "fl (of_int m * 2 powr of_int e) = of_int m * 2 powr of_int e"
proof (cases "m = 0")
  case True
  then show ?thesis by (simp add: fl_powr)
next
  case False
  let ?x = "of_int m * 2 powr of_int e :: real"
  have x0: "?x \<noteq> 0" using False by simp
  have "\<bar>?x\<bar> = of_int \<bar>m\<bar> * 2 powr of_int e" by (simp add: abs_mult)
  also have "\<dots> < 2 ^ 53 * 2 powr of_int e"
  proof -
    have "(of_int \<bar>m\<bar> :: real) < of_int (2 ^ 53)" using assms(1) by (simp only: of_int_less_iff)
    then show ?thesis by simp
  qed
  also have "\<dots> = 2 powr of_int (e + 53)"
    by (simp add: powr_add powr_numeral)
  finally have lt: "\<bar>?x\<bar> < 2 powr of_int (e + 53)" .
  have "log 2 \<bar>?x\<bar> < of_int (e + 53)" using lt x0 by (simp add: log_less_iff)
  then have "\<lfloor>log 2 \<bar>?x\<bar>\<rfloor> - 52 \<le> e" by linarith
  then have le: "ulpExp ?x \<le> e" using assms(2) x0 by (simp add: ulpExp_log)
  define E where "E = ulpExp ?x"
  define p where "p = (2 powr of_int E :: real)"
  define d where "d = nat (e - E)"
  have p0: "0 < p" by (simp add: p_def)
  have e: "e = E + int d" using le by (simp add: d_def E_def)
  have pe: "(2 powr of_int e :: real) = p * 2 ^ d"
    by (subst e) (simp add: p_def powr_add powr_realpow)
  have xp: "?x = of_int (m * 2 ^ d) * p"
    by (simp add: pe)
  have q: "?x / p = of_int (m * 2 ^ d)"
    using p0 by (simp add: xp)
  have "fl ?x = of_int (roundEven (?x / p)) * p"
    using x0 by (simp only: fl_powr if_False p_def E_def)
  also have "\<dots> = of_int (m * 2 ^ d) * p"
    by (simp only: q roundEven_of_int)
  also have "\<dots> = ?x" by (simp only: xp)
  finally show ?thesis .
qed

lemma fl_of_int: "\<bar>m\<bar> < 2 ^ 53 \<Longrightarrow> fl (of_int m) = of_int m"
  using fl_exact [of m 0] by simp

lemma fl_eval:
  assumes "2 powr of_int (E + 52) \<le> \<bar>x\<bar>" and "\<bar>x\<bar> < 2 powr of_int (E + 53)" and "- 1074 \<le> E"
  shows "fl x = of_int (roundEven (x / 2 powr of_int E)) * 2 powr of_int E"
proof -
  have "x \<noteq> 0" using assms(1) by (smt (verit) powr_gt_zero)
  then show ?thesis using ulpExp_eq [OF assms] by (simp add: fl_powr)
qed

lemma pow2_neg13: "(2 powr - 13 :: real) = 1 / 8192"
  by (simp add: powr_minus powr_numeral inverse_eq_divide)

lemma pow2_neg12: "(2 powr - 12 :: real) = 1 / 4096"
  by (simp add: powr_minus powr_numeral inverse_eq_divide)

lemma pow2_neg14: "(2 powr - 14 :: real) = 1 / 16384"
  by (simp add: powr_minus powr_numeral inverse_eq_divide)

lemma conv_bound_sum:
  fixes y c :: real
  assumes "\<bar>y - c * 9 / 5\<bar> \<le> 1 / 8192" and "\<bar>c\<bar> \<le> 1099511627776"
  shows "\<bar>y + 32\<bar> < 4398046511104"
  using assms unfolding abs_le_iff abs_less_iff by linarith

lemma conv_near_c:
  fixes y s c :: real
  assumes "\<bar>y - c * 9 / 5\<bar> \<le> 1 / 8192" and "\<bar>s - (y + 32)\<bar> \<le> 1 / 4096"
  shows "\<bar>s - ((18 * c + 325) / 10 - 1 / 2)\<bar> < 1 / 10"
proof -
  have "(18 * c + 325) / 10 - 1 / 2 = c * 9 / 5 + 32" by (simp add: field_simps)
  then show ?thesis using assms unfolding abs_le_iff abs_less_iff by linarith
qed

lemma conv_near_f:
  fixes y f :: real
  assumes "\<bar>y - (f - 32) * 5 / 9\<bar> \<le> 1 / 16384"
  shows "\<bar>y - ((10 * f - 311) / 18 - 1 / 2)\<bar> < 1 / 18"
proof -
  have "(10 * f - 311) / 18 - 1 / 2 = (f - 32) * 5 / 9" by (simp add: field_simps)
  then show ?thesis using assms unfolding abs_le_iff abs_less_iff by linarith
qed

lemma conv_bound_quot:
  fixes c :: real
  assumes "\<bar>c\<bar> \<le> 1099511627776"
  shows "\<bar>c * 9 / 5\<bar> < 2199023255552" and "\<bar>(c - 32) * 5 / 9\<bar> < 1099511627776"
proof -
  show "\<bar>c * 9 / 5\<bar> < 2199023255552"
    using assms unfolding abs_le_iff abs_less_iff by linarith
  have "(c - 32) * 5 / 9 = c * 5 / 9 - 160 / 9" by (simp add: field_simps)
  then show "\<bar>(c - 32) * 5 / 9\<bar> < 1099511627776"
    using assms unfolding abs_le_iff abs_less_iff by linarith
qed

lemma floor_near:
  fixes s :: real and n q d r :: int
  assumes "0 < d" and "n = d * q + r" and "1 \<le> r" and "r \<le> d - 1"
    and "\<bar>s - (of_int n / of_int d - 1 / 2)\<bar> < 1 / of_int d"
  shows "\<lfloor>s + 1 / 2\<rfloor> = q"
proof -
  have d: "(0 :: real) < of_int d" using assms(1) by simp
  have "of_int n / of_int d = of_int q + of_int r / (of_int d :: real)"
    using d by (simp add: assms(2) field_simps)
  moreover have "1 / of_int d \<le> of_int r / (of_int d :: real)"
    using d assms(3) by (simp add: divide_le_cancel)
  moreover have "of_int r / (of_int d :: real) \<le> 1 - 1 / of_int d"
  proof -
    have "of_int r \<le> (of_int d - 1 :: real)" using assms(4) by (metis of_int_1 of_int_diff of_int_le_iff)
    then have "of_int r / (of_int d :: real) \<le> (of_int d - 1) / of_int d"
      using d by (simp add: divide_le_cancel)
    then show ?thesis using d by (simp add: diff_divide_distrib)
  qed
  ultimately have "of_int q < s + 1 / 2" "s + 1 / 2 < of_int q + 1"
    using assms(5) unfolding abs_less_iff by linarith+
  then show ?thesis by linarith
qed

lemma of_int_bound:
  assumes "\<bar>c\<bar> \<le> 2 ^ 40"
  shows "\<bar>of_int c :: real\<bar> \<le> 1099511627776"
proof -
  have "\<bar>of_int c :: real\<bar> \<le> of_int (2 ^ 40)"
    using assms by (metis of_int_abs of_int_le_iff)
  then show ?thesis by simp
qed

lemma celsiusToFahrenheit_int:
  assumes "\<bar>c\<bar> \<le> 2 ^ 40"
  shows "celsiusToFahrenheit (of_int c) = (18 * c + 325) div 10"
proof -
  define x where "x = (of_int c :: real)"
  define v where "v = x * 9 / 5"
  have c: "\<bar>x\<bar> \<le> 1099511627776" unfolding x_def using assms by (rule of_int_bound)
  have "\<bar>c * 9\<bar> < 2 ^ 53" using assms by simp
  then have a: "fl (x * 9) = x * 9"
    using fl_of_int [of "c * 9"] by (simp add: x_def)
  have vb: "\<bar>v\<bar> < 2 powr of_int 41"
    using conv_bound_quot(1) [OF c] by (simp add: v_def powr_numeral)
  have b: "\<bar>fl v - x * 9 / 5\<bar> \<le> 1 / 8192"
    using fl_error_bound [OF vb] by (simp add: pow2_neg13 v_def)
  have w: "\<bar>fl v + 32\<bar> < 2 powr of_int 42"
    using conv_bound_sum [OF b c] by (simp add: powr_numeral)
  have s: "\<bar>fl (fl v + 32) - (fl v + 32)\<bar> \<le> 1 / 4096"
    using fl_error_bound [OF w] by (simp add: pow2_neg12)
  have "\<bar>fl (fl v + 32) - ((18 * x + 325) / 10 - 1 / 2)\<bar> < 1 / 10"
    by (rule conv_near_c [OF b s])
  then have near: "\<bar>fl (fl v + 32) - (of_int (18 * c + 325) / of_int 10 - 1 / 2)\<bar> < 1 / of_int 10"
    by (simp add: x_def)
  have r: "1 \<le> (18 * c + 325) mod 10" "(18 * c + 325) mod 10 \<le> 10 - 1"
    by presburger+
  have fin: "\<lfloor>fl (fl v + 32) + 1 / 2\<rfloor> = (18 * c + 325) div 10"
    by (rule floor_near [OF _ _ r near]) simp_all
  have "celsiusToFahrenheit x = \<lfloor>fl (fl v + 32) + 1 / 2\<rfloor>"
    by (simp only: celsiusToFahrenheit_def mathRound_def a v_def)
  then show ?thesis using fin by (simp only: x_def)
qed

lemma fahrenheitToCelsius_int:
  assumes "\<bar>f\<bar> \<le> 2 ^ 40"
  shows "fahrenheitToCelsius (of_int f) = (10 * f - 311) div 18"
proof -
  define x where "x = (of_int f :: real)"
  define v where "v = (x - 32) * 5 / 9"
  have c: "\<bar>x\<bar> \<le> 1099511627776" unfolding x_def using assms by (rule of_int_bound)
  have "\<bar>f - 32\<bar> < 2 ^ 53" using assms by simp
  then have a: "fl (x - 32) = x - 32"
    using fl_of_int [of "f - 32"] by (simp add: x_def)
  have "\<bar>(f - 32) * 5\<bar> < 2 ^ 53" using assms by simp
  then have b: "fl ((x - 32) * 5) = (x - 32) * 5"
    using fl_of_int [of "(f - 32) * 5"] by (simp add: x_def)
  have vb: "\<bar>v\<bar> < 2 powr of_int 40"
    using conv_bound_quot(2) [OF c] by (simp add: v_def powr_numeral)
  have e: "\<bar>fl v - (x - 32) * 5 / 9\<bar> \<le> 1 / 16384"
    using fl_error_bound [OF vb] by (simp add: pow2_neg14 v_def)
  have "\<bar>fl v - ((10 * x - 311) / 18 - 1 / 2)\<bar> < 1 / 18"
    by (rule conv_near_f [OF e])
  then have near: "\<bar>fl v - (of_int (10 * f - 311) / of_int 18 - 1 / 2)\<bar> < 1 / of_int 18"
    by (simp add: x_def)
  have r: "1 \<le> (10 * f - 311) mod 18" "(10 * f - 311) mod 18 \<le> 18 - 1"
    by presburger+
  have fin: "\<lfloor>fl v + 1 / 2\<rfloor> = (10 * f - 311) div 18"
    by (rule floor_near [OF _ _ r near]) simp_all
  have "fahrenheitToCelsius x = \<lfloor>fl v + 1 / 2\<rfloor>"
    by (simp only: fahrenheitToCelsius_def mathRound_def a b v_def)
  then show ?thesis using fin by (simp only: x_def)
qed

lemma round_conv_c: "round (of_int c * (9 / 5) + 32 :: real) = (18 * c + 325) div 10"
proof -
  have "(of_int c * (9 / 5) + 32 :: real) + 1 / 2 = of_int (18 * c + 325) / of_int 10"
    by (simp add: field_simps)
  then show ?thesis unfolding round_def by (simp only: floor_divide_of_int_eq)
qed

lemma round_conv_f: "round ((of_int f - 32) * (5 / 9) :: real) = (10 * f - 311) div 18"
proof -
  have "((of_int f - 32) * (5 / 9) :: real) + 1 / 2 = of_int (10 * f - 311) / of_int 18"
    by (simp add: field_simps)
  then show ?thesis unfolding round_def by (simp only: floor_divide_of_int_eq)
qed

lemma fl_binade:
  fixes k :: nat
  assumes "2 ^ k \<le> \<bar>x\<bar>" and "\<bar>x\<bar> < 2 ^ Suc k" and "k \<le> 52"
  shows "fl x = of_int (roundEven (x * 2 ^ (52 - k))) / 2 ^ (52 - k)"
proof -
  let ?E = "int k - 52"
  have p: "(2 powr of_int ?E :: real) = 1 / 2 ^ (52 - k)"
  proof -
    have "(2 powr of_int ?E :: real) = 2 powr (- real (52 - k))"
      using assms(3) by (simp add: of_nat_diff)
    also have "\<dots> = 1 / 2 ^ (52 - k)"
      by (simp add: powr_minus powr_realpow inverse_eq_divide)
    finally show ?thesis .
  qed
  have a: "2 powr of_int (?E + 52) \<le> \<bar>x\<bar>"
    using assms(1) by (simp add: powr_realpow)
  have b: "\<bar>x\<bar> < 2 powr of_int (?E + 53)"
  proof -
    have "(2 powr of_int (?E + 53) :: real) = 2 powr real (Suc k)" by simp
    also have "\<dots> = 2 ^ Suc k" by (simp only: powr_realpow zero_less_numeral)
    finally show ?thesis using assms(2) by simp
  qed
  have "fl x = of_int (roundEven (x / 2 powr of_int ?E)) * 2 powr of_int ?E"
    by (rule fl_eval [OF a b]) simp
  then show ?thesis by (simp only: p) simp
qed

lemma celsius_below_two_and_half:
  "celsiusToFahrenheit belowTwoAndHalf = 37"
proof -
  have a: "fl (belowTwoAndHalf * 9) = 6333186975989759 / 2 ^ 48"
    by (subst fl_binade [where k = 4]) (simp_all add: belowTwoAndHalf_def roundEven_def)
  have b: "fl (6333186975989759 / 2 ^ 48 / 5) = 5066549580791807 / 2 ^ 50"
    by (subst fl_binade [where k = 2]) (simp_all add: roundEven_def)
  have c: "fl (5066549580791807 / 2 ^ 50 + 32) = 73 / 2"
    by (subst fl_binade [where k = 5]) (simp_all add: roundEven_def)
  show ?thesis
    unfolding celsiusToFahrenheit_def a b c by (simp add: mathRound_def)
qed

lemma fahrenheit_near_fifty_point_nine:
  "fahrenheitToCelsius nearFiftyPointNine = 11"
proof -
  have a: "fl (nearFiftyPointNine - 32) = 2659938529915699 / 2 ^ 47"
    by (subst fl_binade [where k = 4]) (simp_all add: nearFiftyPointNine_def roundEven_def)
  have b: "fl (2659938529915699 / 2 ^ 47 * 5) = 189 / 2"
    by (subst fl_binade [where k = 6]) (simp_all add: roundEven_def)
  have c: "fl (189 / 2 / 9) = 21 / 2"
    by (subst fl_binade [where k = 3]) (simp_all add: roundEven_def)
  show ?thesis
    unfolding fahrenheitToCelsius_def a b c by (simp add: mathRound_def)
qed

lemma doubles_are_fixed:
  "fl belowTwoAndHalf = belowTwoAndHalf" "fl nearFiftyPointNine = nearFiftyPointNine"
proof -
  show "fl belowTwoAndHalf = belowTwoAndHalf"
    by (subst fl_binade [where k = 1]) (simp_all add: belowTwoAndHalf_def roundEven_def)
  show "fl nearFiftyPointNine = nearFiftyPointNine"
    by (subst fl_binade [where k = 5]) (simp_all add: nearFiftyPointNine_def roundEven_def)
qed

lemma exact_rounds:
  "round (belowTwoAndHalf * (9 / 5) + 32) = 36"
  "round ((nearFiftyPointNine - 32) * (5 / 9)) = 10"
  by (simp_all add: belowTwoAndHalf_def nearFiftyPointNine_def round_def)

lemma celsius_at_large_integer:
  "celsiusToFahrenheit 9007199254740991 = 16212958658533814"
proof -
  have a: "fl (9007199254740991 * 9) = 81064793292668912"
    by (subst fl_eval [where E = 4]) (simp_all add: roundEven_def)
  have b: "fl (81064793292668912 / 5) = 16212958658533782"
    by (subst fl_eval [where E = 1]) (simp_all add: roundEven_def)
  have c: "fl (16212958658533782 + 32) = 16212958658533814"
    by (subst fl_eval [where E = 1]) (simp_all add: roundEven_def)
  show ?thesis
    unfolding celsiusToFahrenheit_def a b c by (simp add: mathRound_def)
qed

lemma exact_at_large_integer:
  "round (9007199254740991 * (9 / 5) + 32 :: real) = 16212958658533816"
  by (simp add: round_def)

lemma conversions_at_examples:
  "celsiusToFahrenheit 20 = 68" "fahrenheitToCelsius 68 = 20"
  "fahrenheitToCelsius 33 = 1" "celsiusToFahrenheit 1 = 34" "celsiusToFahrenheit 21 = 70"
  using celsiusToFahrenheit_int [of 20] fahrenheitToCelsius_int [of 68]
    fahrenheitToCelsius_int [of 33] celsiusToFahrenheit_int [of 1] celsiusToFahrenheit_int [of 21]
  by simp_all

text \<open>
  Claim C4, as the code has it. For every integer input \<open>c\<close> of magnitude at most
  \<open>2 ^ 40\<close> the Celsius-to-Fahrenheit conversion returns \<open>c * 9/5 + 32\<close> rounded to
  the nearest integer, and for every such integer \<open>f\<close> the Fahrenheit-to-Celsius
  conversion returns \<open>(f - 32) * 5/9\<close> rounded to the nearest integer; 20 degrees
  Celsius are 68 degrees Fahrenheit, and back. (For other inputs the result is
  \<^verbatim>\<open>Math.round\<close> of the expression as evaluated in double precision.)
\<close>

theorem C4_conversion_formulas:
  "(\<bar>c\<bar> \<le> 2 ^ 40 \<longrightarrow>
      celsiusToFahrenheit (of_int c) = round (of_int c * (9 / 5) + 32 :: real)
      \<and> \<bar>of_int (celsiusToFahrenheit (of_int c)) - (of_int c * (9 / 5) + 32 :: real)\<bar> \<le> 1 / 2)
   \<and> (\<bar>f\<bar> \<le> 2 ^ 40 \<longrightarrow>
      fahrenheitToCelsius (of_int f) = round ((of_int f - 32) * (5 / 9) :: real)
      \<and> \<bar>of_int (fahrenheitToCelsius (of_int f)) - ((of_int f - 32) * (5 / 9) :: real)\<bar> \<le> 1 / 2)
   \<and> celsiusToFahrenheit 20 = 68
   \<and> fahrenheitToCelsius 68 = 20"
proof (intro conjI impI)
  assume c: "\<bar>c\<bar> \<le> 2 ^ 40"
  show "celsiusToFahrenheit (of_int c) = round (of_int c * (9 / 5) + 32 :: real)"
    by (simp only: celsiusToFahrenheit_int [OF c] round_conv_c)
  then show "\<bar>of_int (celsiusToFahrenheit (of_int c)) - (of_int c * (9 / 5) + 32 :: real)\<bar> \<le> 1 / 2"
    by (simp only: of_int_round_abs_le)
next
  assume f: "\<bar>f\<bar> \<le> 2 ^ 40"
  show "fahrenheitToCelsius (of_int f) = round ((of_int f - 32) * (5 / 9) :: real)"
    by (simp only: fahrenheitToCelsius_int [OF f] round_conv_f)
  then show "\<bar>of_int (fahrenheitToCelsius (of_int f)) - ((of_int f - 32) * (5 / 9) :: real)\<bar> \<le> 1 / 2"
    by (simp only: of_int_round_abs_le)
next
  show "celsiusToFahrenheit 20 = 68" by (rule conversions_at_examples)
  show "fahrenheitToCelsius 68 = 20" by (rule conversions_at_examples)
qed

theorem C4_conversion_formulas_witness:
  "\<bar>20 :: int\<bar> \<le> 2 ^ 40 \<and> celsiusToFahrenheit (of_int 20) = 68
   \<and> \<bar>68 :: int\<bar> \<le> 2 ^ 40 \<and> fahrenheitToCelsius (of_int 68) = 20
   \<and> \<bar>- 40 :: int\<bar> \<le> 2 ^ 40 \<and> celsiusToFahrenheit (of_int (- 40)) = - 40
   \<and> fahrenheitToCelsius (of_int (- 40)) = - 40"
proof -
  have r: "round (20 * (9 / 5) + 32 :: real) = 68" "round ((68 - 32) * (5 / 9) :: real) = 20"
    "round (- 40 * (9 / 5) + 32 :: real) = - 40" "round ((- 40 - 32) * (5 / 9) :: real) = - 40"
    by (simp_all add: round_def)
  show ?thesis
    using C4_conversion_formulas [of 20 68] C4_conversion_formulas [of "- 40" "- 40"]
    by (simp add: r)
qed

text \<open>
  Claim C4 as stated fails for inputs that are not integers. At the double nearest to
  50.9 the product \<open>(f - 32) * 5\<close> is rounded up to 94.5, so the code returns 11
  where the exact value, just below 10.5, rounds to 10; at the double just below 2.5
  the sum is rounded up to 36.5, so the code returns 37 where the exact value rounds
  to 36. It also fails for large integers: at \<open>2 ^ 53 - 1\<close> the code returns
  16212958658533814 where the exact value rounds to 16212958658533816.
\<close>

theorem C4_conversion_counterexample:
  "fl nearFiftyPointNine = nearFiftyPointNine
   \<and> \<bar>nearFiftyPointNine - 50.9\<bar> < 1 / 2 ^ 48
   \<and> fahrenheitToCelsius nearFiftyPointNine = 11
   \<and> round ((nearFiftyPointNine - 32) * (5 / 9)) = 10
   \<and> fl belowTwoAndHalf = belowTwoAndHalf
   \<and> celsiusToFahrenheit belowTwoAndHalf = 37
   \<and> round (belowTwoAndHalf * (9 / 5) + 32) = 36
   \<and> fl 9007199254740991 = 9007199254740991
   \<and> celsiusToFahrenheit 9007199254740991 = 16212958658533814
   \<and> round (9007199254740991 * (9 / 5) + 32 :: real) = 16212958658533816"
proof -
  have "\<bar>nearFiftyPointNine - 50.9\<bar> < 1 / 2 ^ 48"
    by (simp add: nearFiftyPointNine_def)
  then show ?thesis
    using doubles_are_fixed exact_rounds celsius_below_two_and_half
      fahrenheit_near_fifty_point_nine fl_of_int [of 9007199254740991]
      celsius_at_large_integer exact_at_large_integer
    by simp
qed

text \<open>
  Claim C6. The two rounded conversions are not inverse to each other: for some
  integer \<open>f\<close>, converting to Celsius and back gives a value other than \<open>f\<close>
  (33 becomes 1 and then 34), although 68 survives the round trip.
\<close>

theorem C6_round_trip_lossy:
  "(\<exists>f :: int. celsiusToFahrenheit (of_int (fahrenheitToCelsius (of_int f))) \<noteq> f)
   \<and> celsiusToFahrenheit (of_int (fahrenheitToCelsius 33)) = 34
   \<and> celsiusToFahrenheit (of_int (fahrenheitToCelsius 68)) = 68"
proof -
  note e = conversions_at_examples
  have "celsiusToFahrenheit (of_int (fahrenheitToCelsius (of_int (33 :: int)))) \<noteq> 33"
    using e by simp
  then have "\<exists>f :: int. celsiusToFahrenheit (of_int (fahrenheitToCelsius (of_int f))) \<noteq> f"
    by blast
  then show ?thesis using e by simp
qed

subsection \<open>Day buckets\<close>

lemma firstSeen_Nil [simp]: "firstSeen [] = []" by (simp add: firstSeen_def)
lemma firstSeen_snoc: "firstSeen (ks @ [k]) = (if k \<in> set (firstSeen ks) then firstSeen ks else firstSeen ks @ [k])"
  by (simp add: firstSeen_def)
lemma set_firstSeen [simp]: "set (firstSeen ks) = set ks"
  by (induction ks rule: rev_induct) (auto simp: firstSeen_snoc)
lemma distinct_firstSeen [simp]: "distinct (firstSeen ks)"
  by (induction ks rule: rev_induct) (auto simp: firstSeen_snoc)

lemma map_of_tabulate: "map_of (map (\<lambda>k. (k, f k)) ks) k = (if k \<in> set ks then Some (f k) else None)"
  by (induction ks) auto

lemma assign_new: "k \<notin> set ks \<Longrightarrow> assign k v (map (\<lambda>k. (k, f k)) ks) = map (\<lambda>k. (k, f k)) ks @ [(k, v)]"
  by (induction ks) auto

lemma assign_old: "k \<in> set ks \<Longrightarrow> distinct ks \<Longrightarrow>
   assign k v (map (\<lambda>k. (k, f k)) ks) = map (\<lambda>k'. (k', if k' = k then v else f k')) ks"
  by (induction ks) auto

lemma group_char:
  "foldl (pushStep key) [] xs = map (\<lambda>k. (k, filter (\<lambda>x. key x = k) xs)) (firstSeen (map key xs))"
proof (induction xs rule: rev_induct)
  case Nil
  then show ?case by simp
next
  case (snoc x xs)
  let ?ks = "firstSeen (map key xs)"
  show ?case
  proof (cases "key x \<in> set ?ks")
    case True
    have "pushStep key (map (\<lambda>k. (k, filter (\<lambda>x. key x = k) xs)) ?ks) x
          = map (\<lambda>k'. (k', if k' = key x then filter (\<lambda>y. key y = key x) xs @ [x] else filter (\<lambda>x. key x = k') xs)) ?ks"
      using True by (simp add: pushStep_def map_of_tabulate assign_old)
    also have "\<dots> = map (\<lambda>k. (k, filter (\<lambda>y. key y = k) (xs @ [x]))) ?ks"
      by auto
    finally show ?thesis using True snoc by (simp add: firstSeen_snoc)
  next
    case False
    have "pushStep key (map (\<lambda>k. (k, filter (\<lambda>x. key x = k) xs)) ?ks) x
          = map (\<lambda>k. (k, filter (\<lambda>x. key x = k) xs)) ?ks @ [(key x, [x])]"
      using False by (simp add: pushStep_def map_of_tabulate assign_new)
    moreover have "filter (\<lambda>y. key y = key x) xs = []"
      using False by (auto simp: filter_empty_conv) (metis imageI)
    moreover have "map (\<lambda>k. (k, filter (\<lambda>y. key y = k) (xs @ [x]))) ?ks = map (\<lambda>k. (k, filter (\<lambda>x. key x = k) xs)) ?ks"
      using False by force
    ultimately show ?thesis using False snoc by (simp add: firstSeen_snoc)
  qed
qed

lemma dailyForecasts_char:
  "dailyForecasts h xs = map (\<lambda>k. (k, filter (\<lambda>x. midnight h (dt x * 1000) = k) xs)) (firstSeen (map (\<lambda>x. midnight h (dt x * 1000)) xs))"
proof -
  have "dailyForecasts h xs = foldl (pushStep (\<lambda>x. midnight h (dt x * 1000))) [] xs"
    unfolding dailyForecasts_def pushStep_def Let_def ..
  then show ?thesis by (simp add: group_char)
qed

lemma jsSet_plain: "\<not> isArrayIndex k \<Longrightarrow> jsSet k v obj = assign k v obj"
  by (simp add: jsSet_def)

lemma groupForecastByDay_char:
  assumes "\<forall>item \<in> set xs. \<not> isArrayIndex (toLocaleDateString h (dt item * 1000))"
  shows "groupForecastByDay h xs =
           map (\<lambda>k. filter (\<lambda>x. toLocaleDateString h (dt x * 1000) = k) xs)
               (firstSeen (map (\<lambda>x. toLocaleDateString h (dt x * 1000)) xs))"
proof -
  let ?key = "\<lambda>x. toLocaleDateString h (dt x * 1000)"
  have "foldl (\<lambda>dailyData item.
                     let date = dt item * 1000;
                         dateKey = toLocaleDateString h date
                     in case map_of dailyData dateKey of
                          None \<Rightarrow> jsSet dateKey [item] dailyData
                        | Some items \<Rightarrow> jsSet dateKey (items @ [item]) dailyData)
                  [] xs = foldl (pushStep ?key) [] xs"
    using assms by (intro foldl_cong) (auto simp: pushStep_def Let_def jsSet_plain split: option.splits)
  then show ?thesis
    by (simp add: groupForecastByDay_def group_char comp_def)
qed

lemma mset_filter_split: "mset (filter P xs) + mset (filter (\<lambda>x. \<not> P x) xs) = mset xs"
  by (induction xs) auto

lemma concat_buckets_mset:
  "distinct ks \<Longrightarrow> key ` set xs \<subseteq> set ks \<Longrightarrow>
     mset (concat (map (\<lambda>k. filter (\<lambda>x. key x = k) xs) ks)) = mset xs"
proof (induction ks arbitrary: xs)
  case Nil
  then show ?case by simp
next
  case (Cons k ks)
  let ?rest = "filter (\<lambda>x. \<not> key x = k) xs"
  have r: "key ` set ?rest \<subseteq> set ks" using Cons.prems by auto
  have d: "distinct ks" and nk: "k \<notin> set ks" using Cons.prems(1) by auto
  have "\<And>k'. k' \<in> set ks \<Longrightarrow> filter (\<lambda>x. key x = k') ?rest = filter (\<lambda>x. key x = k') xs"
    using nk by (auto intro!: filter_cong)
  then have eq: "map (\<lambda>k'. filter (\<lambda>x. key x = k') xs) ks = map (\<lambda>k'. filter (\<lambda>x. key x = k') ?rest) ks"
    by (intro map_cong) (simp_all only:)
  have ih: "mset (concat (map (\<lambda>k'. filter (\<lambda>x. key x = k') ?rest) ks)) = mset ?rest"
    by (rule Cons.IH [OF d r])
  have "mset (concat (map (\<lambda>k'. filter (\<lambda>x. key x = k') xs) (k # ks)))
        = mset (filter (\<lambda>x. key x = k) xs) + mset (concat (map (\<lambda>k'. filter (\<lambda>x. key x = k') xs) ks))"
    by simp
  also have "\<dots> = mset (filter (\<lambda>x. key x = k) xs) + mset ?rest"
    by (simp only: eq ih)
  also have "\<dots> = mset xs"
    by (rule mset_filter_split)
  finally show ?case .
qed


lemma insertCmp_insort:
  assumes "\<And>x y. (cmp x y \<le> 0) = (f x \<le> f y)"
  shows "insertCmp cmp x ys = insort_key f x ys"
  by (induction ys) (auto simp: assms)

lemma sortCmp_sort_key:
  assumes "\<And>x y. (cmp x y \<le> 0) = (f x \<le> f y)"
  shows "sortCmp cmp xs = sort_key f xs"
  by (induction xs) (auto simp: insertCmp_insort [of cmp f, OF assms])

lemma sortedDays_sort:
  "sortedDays h xs = sort (firstSeen (map (\<lambda>x. midnight h (dt x * 1000)) xs))"
proof -
  have "sortCmp (\<lambda>a b. a - b) ks = sort_key (\<lambda>x. x) ks" for ks :: "int list"
    by (rule sortCmp_sort_key) auto
  then show ?thesis
    by (simp add: sortedDays_def dailyForecasts_char comp_def)
qed

lemma sorted_firstSeen:
  "sorted ks \<Longrightarrow> sorted (firstSeen ks)"
proof (induction ks rule: rev_induct)
  case Nil
  then show ?case by simp
next
  case (snoc k ks)
  then have s: "sorted ks" and le: "\<forall>x\<in>set ks. x \<le> k"
    by (auto simp: sorted_append)
  then show ?case using snoc.IH by (auto simp: firstSeen_snoc sorted_append)
qed

lemma sortedDays_first_seen:
  assumes "sorted (map (\<lambda>x. midnight h (dt x * 1000)) xs)"
  shows "sortedDays h xs = firstSeen (map (\<lambda>x. midnight h (dt x * 1000)) xs)"
  using sorted_firstSeen [OF assms] by (simp add: sortedDays_sort sorted_sort_id)

lemma sortedBuckets_char:
  "sortedBuckets h xs = map (\<lambda>k. filter (\<lambda>x. midnight h (dt x * 1000) = k) xs) (sortedDays h xs)"
proof -
  have "set (sortedDays h xs) = set (firstSeen (map (\<lambda>x. midnight h (dt x * 1000)) xs))"
    by (simp add: sortedDays_sort)
  then show ?thesis
    unfolding sortedBuckets_def
    by (intro map_cong) (auto simp: dailyForecasts_char map_of_tabulate)
qed

lemma bucket_props:
  assumes d: "distinct ks" and s: "set ks = key ` set xs"
  shows "mset (concat (map (\<lambda>k. filter (\<lambda>x. key x = k) xs) ks)) = mset xs"
    and "length (concat (map (\<lambda>k. filter (\<lambda>x. key x = k) xs) ks)) = length xs"
    and "[] \<notin> set (map (\<lambda>k. filter (\<lambda>x. key x = k) xs) ks)"
    and "\<forall>i < length ks. \<forall>j < length ks. i \<noteq> j \<longrightarrow>
           set (map (\<lambda>k. filter (\<lambda>x. key x = k) xs) ks ! i)
           \<inter> set (map (\<lambda>k. filter (\<lambda>x. key x = k) xs) ks ! j) = {}"
proof -
  show m: "mset (concat (map (\<lambda>k. filter (\<lambda>x. key x = k) xs) ks)) = mset xs"
    using d s by (intro concat_buckets_mset) auto
  show "length (concat (map (\<lambda>k. filter (\<lambda>x. key x = k) xs) ks)) = length xs"
    using m by (metis size_mset)
  show "[] \<notin> set (map (\<lambda>k. filter (\<lambda>x. key x = k) xs) ks)"
  proof
    assume "[] \<in> set (map (\<lambda>k. filter (\<lambda>x. key x = k) xs) ks)"
    then obtain k where k: "k \<in> set ks" and e: "filter (\<lambda>x. key x = k) xs = []"
      by auto
    from k s obtain x where "x \<in> set xs" "key x = k" by auto
    with e show False by (auto simp: filter_empty_conv)
  qed
  show "\<forall>i < length ks. \<forall>j < length ks. i \<noteq> j \<longrightarrow>
           set (map (\<lambda>k. filter (\<lambda>x. key x = k) xs) ks ! i)
           \<inter> set (map (\<lambda>k. filter (\<lambda>x. key x = k) xs) ks ! j) = {}"
    using d by (auto simp: nth_eq_iff_index_eq)
qed

text \<open>
  Claim C1. The day-bucketing operation partitions every forecast sample list: each
  bucket holds, in source order, exactly the samples of one date key; the buckets are
  pairwise disjoint and non-empty, and together they hold every sample once, so that
  the sizes add up to the length of the input. \<^verbatim>\<open>groupForecastByDay\<close> returns the
  buckets in the order in which their date keys are first seen (date strings are not
  array indices). The grouping of \<^verbatim>\<open>main.js\<close> returns them by ascending date key,
  which is the first-seen order when the samples come in ascending order of time.
\<close>

theorem C1_day_bucketing:
  fixes h :: host and data :: "forecast list"
  assumes "\<forall>item \<in> set data. \<not> isArrayIndex (toLocaleDateString h (dt item * 1000))"
  shows "(let key = (\<lambda>item. toLocaleDateString h (dt item * 1000));
              buckets = groupForecastByDay h data
          in buckets = map (\<lambda>k. filter (\<lambda>item. key item = k) data) (firstSeen (map key data))
             \<and> mset (concat buckets) = mset data
             \<and> length (concat buckets) = length data
             \<and> [] \<notin> set buckets
             \<and> (\<forall>i < length buckets. \<forall>j < length buckets. i \<noteq> j \<longrightarrow>
                   set (buckets ! i) \<inter> set (buckets ! j) = {}))
         \<and> (let key = (\<lambda>item. midnight h (dt item * 1000));
                 buckets = sortedBuckets h data
             in buckets = map (\<lambda>k. filter (\<lambda>item. key item = k) data) (sort (firstSeen (map key data)))
                \<and> mset (concat buckets) = mset data
                \<and> length (concat buckets) = length data
                \<and> [] \<notin> set buckets
                \<and> (\<forall>i < length buckets. \<forall>j < length buckets. i \<noteq> j \<longrightarrow>
                      set (buckets ! i) \<inter> set (buckets ! j) = {})
                \<and> (sorted (map key data) \<longrightarrow>
                      buckets = map (\<lambda>k. filter (\<lambda>item. key item = k) data) (firstSeen (map key data))))"
proof -
  let ?k1 = "\<lambda>item. toLocaleDateString h (dt item * 1000)"
  let ?k2 = "\<lambda>item. midnight h (dt item * 1000)"
  let ?ks1 = "firstSeen (map ?k1 data)"
  let ?ks2 = "sort (firstSeen (map ?k2 data))"
  have b1: "groupForecastByDay h data = map (\<lambda>k. filter (\<lambda>item. ?k1 item = k) data) ?ks1"
    using assms by (rule groupForecastByDay_char)
  have b2: "sortedBuckets h data = map (\<lambda>k. filter (\<lambda>item. ?k2 item = k) data) ?ks2"
    by (simp add: sortedBuckets_char sortedDays_sort)
  have d1: "distinct ?ks1" and s1: "set ?ks1 = ?k1 ` set data" by simp_all
  have d2: "distinct ?ks2" and s2: "set ?ks2 = ?k2 ` set data" by simp_all
  have l1: "length (groupForecastByDay h data) = length ?ks1" by (simp add: b1)
  have l2: "length (sortedBuckets h data) = length ?ks2" by (simp add: b2)
  have first: "sorted (map ?k2 data) \<longrightarrow> sortedBuckets h data = map (\<lambda>k. filter (\<lambda>item. ?k2 item = k) data) (firstSeen (map ?k2 data))"
    by (simp add: sortedBuckets_char sortedDays_first_seen)
  show ?thesis
    unfolding Let_def
    using bucket_props [OF d1 s1] bucket_props [OF d2 s2] first
    unfolding l1 l2 b1 [symmetric] b2 [symmetric]
    by blast
qed

theorem C1_day_bucketing_witness:
  "list_all (\<lambda>item. \<not> isArrayIndex (toLocaleDateString utc (dt item * 1000))) threeSamples
   \<and> groupForecastByDay utc threeSamples
      = [[\<lparr>dt = 0, temp = 5, icon = ''01d''\<rparr>, \<lparr>dt = 3600, temp = 7, icon = ''02d''\<rparr>],
         [\<lparr>dt = 86400, temp = 6, icon = ''01d''\<rparr>]]
   \<and> sorted (map (\<lambda>item. midnight utc (dt item * 1000)) threeSamples)
   \<and> sortedBuckets utc threeSamples
      = [[\<lparr>dt = 0, temp = 5, icon = ''01d''\<rparr>, \<lparr>dt = 3600, temp = 7, icon = ''02d''\<rparr>],
         [\<lparr>dt = 86400, temp = 6, icon = ''01d''\<rparr>]]"
proof -
  have h: "\<forall>item \<in> set threeSamples. \<not> isArrayIndex (toLocaleDateString utc (dt item * 1000))"
    by (simp add: threeSamples_def utc_def isArrayIndex_def)
  have k1: "map (\<lambda>item. toLocaleDateString utc (dt item * 1000)) threeSamples
            = [''day 0'', ''day 0'', ''day 1'']"
    by (simp add: threeSamples_def utc_def showInt_def showNat.simps digitChar_def)
  have k2: "firstSeen [''day 0'', ''day 0'', ''day 1''] = [''day 0'', ''day 1'']"
    by (simp add: firstSeen_def)
  have k3: "map (\<lambda>k. filter (\<lambda>item. toLocaleDateString utc (dt item * 1000) = k) threeSamples)
                [''day 0'', ''day 1'']
            = [[\<lparr>dt = 0, temp = 5, icon = ''01d''\<rparr>, \<lparr>dt = 3600, temp = 7, icon = ''02d''\<rparr>],
               [\<lparr>dt = 86400, temp = 6, icon = ''01d''\<rparr>]]"
    by (simp add: threeSamples_def utc_def showInt_def showNat.simps digitChar_def)
  have m1: "map (\<lambda>item. midnight utc (dt item * 1000)) threeSamples = [0, 0, 86400000]"
    by (simp add: threeSamples_def utc_def)
  have m2: "sort (firstSeen [0, 0, 86400000 :: int]) = [0, 86400000]"
    by (simp add: firstSeen_def)
  have m3: "map (\<lambda>k. filter (\<lambda>item. midnight utc (dt item * 1000) = k) threeSamples)
                [0, 86400000]
            = [[\<lparr>dt = 0, temp = 5, icon = ''01d''\<rparr>, \<lparr>dt = 3600, temp = 7, icon = ''02d''\<rparr>],
               [\<lparr>dt = 86400, temp = 6, icon = ''01d''\<rparr>]]"
    by (simp add: threeSamples_def utc_def)
  note t = C1_day_bucketing [OF h, unfolded Let_def]
  have a: "groupForecastByDay utc threeSamples
        = map (\<lambda>k. filter (\<lambda>item. toLocaleDateString utc (dt item * 1000) = k) threeSamples)
              (firstSeen (map (\<lambda>item. toLocaleDateString utc (dt item * 1000)) threeSamples))"
    by (rule conjunct1 [OF conjunct1 [OF t]])
  have b: "sortedBuckets utc threeSamples
        = map (\<lambda>k. filter (\<lambda>item. midnight utc (dt item * 1000) = k) threeSamples)
              (sort (firstSeen (map (\<lambda>item. midnight utc (dt item * 1000)) threeSamples)))"
    by (rule conjunct1 [OF conjunct2 [OF t]])
  have "list_all (\<lambda>item. \<not> isArrayIndex (toLocaleDateString utc (dt item * 1000))) threeSamples"
    using h by (simp add: list_all_iff)
  moreover have "sorted (map (\<lambda>item. midnight utc (dt item * 1000)) threeSamples)"
    unfolding m1 by simp
  ultimately show ?thesis
    using a b by (simp only: k1 k2 k3 m1 m2 m3 simp_thms)
qed

text \<open>On a list that is not in ascending order of time the two groupings differ in the
  order of the buckets: first seen against ascending.\<close>

lemma grouping_of_shuffled_input:
  "groupForecastByDay utc shuffledSamples
     = [[\<lparr>dt = 86400, temp = 6, icon = ''01d''\<rparr>],
        [\<lparr>dt = 0, temp = 5, icon = ''01d''\<rparr>, \<lparr>dt = 3600, temp = 7, icon = ''02d''\<rparr>]]
   \<and> sortedBuckets utc shuffledSamples
     = [[\<lparr>dt = 0, temp = 5, icon = ''01d''\<rparr>, \<lparr>dt = 3600, temp = 7, icon = ''02d''\<rparr>],
        [\<lparr>dt = 86400, temp = 6, icon = ''01d''\<rparr>]]"
proof -
  have a: "groupForecastByDay utc shuffledSamples
     = [[\<lparr>dt = 86400, temp = 6, icon = ''01d''\<rparr>],
        [\<lparr>dt = 0, temp = 5, icon = ''01d''\<rparr>, \<lparr>dt = 3600, temp = 7, icon = ''02d''\<rparr>]]"
    by (simp add: groupForecastByDay_def shuffledSamples_def utc_def jsSet_def isArrayIndex_def
        showInt_def showNat.simps digitChar_def)
  have d: "dailyForecasts utc shuffledSamples
     = [(86400000, [\<lparr>dt = 86400, temp = 6, icon = ''01d''\<rparr>]),
        (0, [\<lparr>dt = 0, temp = 5, icon = ''01d''\<rparr>, \<lparr>dt = 3600, temp = 7, icon = ''02d''\<rparr>])]"
    by (simp add: dailyForecasts_def shuffledSamples_def utc_def)
  have b: "sortedBuckets utc shuffledSamples
     = [[\<lparr>dt = 0, temp = 5, icon = ''01d''\<rparr>, \<lparr>dt = 3600, temp = 7, icon = ''02d''\<rparr>],
        [\<lparr>dt = 86400, temp = 6, icon = ''01d''\<rparr>]]"
    unfolding sortedBuckets_def sortedDays_def d by simp
  show ?thesis using a b by simp
qed

text \<open>Ascending timestamps give ascending date keys when local midnight is monotone.\<close>

lemma sorted_dateKeys:
  assumes "\<And>a b. a \<le> b \<Longrightarrow> midnight h a \<le> midnight h b"
    and "sorted (map dt xs)"
  shows "sorted (map (\<lambda>item. midnight h (dt item * 1000)) xs)"
  using assms(2)
proof (induction xs)
  case Nil
  then show ?case by simp
next
  case (Cons x xs)
  then show ?case by (auto intro!: assms(1))
qed

subsection \<open>Formatting the time of day\<close>

lemma showNat_digit: "n < 10 \<Longrightarrow> showNat n = [digitChar n]"
  by (simp add: showNat.simps)

lemma showNat_two:
  assumes "10 \<le> n" and "n < 100"
  shows "showNat n = [digitChar (n div 10), digitChar (n mod 10)]"
proof -
  from assms have "n div 10 < 10" by simp
  then have "showNat (n div 10) = [digitChar (n div 10)]" by (rule showNat_digit)
  then show ?thesis using assms by (simp add: showNat.simps [of n])
qed

lemma padStart_two:
  assumes "n < 100"
  shows "padStart 2 (CHR ''0'') (showNat n) = [digitChar (n div 10), digitChar (n mod 10)]"
proof (cases "n < 10")
  case True
  then show ?thesis by (simp add: padStart_def showNat_digit digitChar_def)
next
  case False
  with assms show ?thesis by (simp add: padStart_def showNat_two)
qed

lemma utc_hours: "getHours utc (int n * 3600000) = n mod 24"
  by (simp add: utc_def nat_mod_distrib zmod_int)

text \<open>
  Claim C5. For an hour of the day \<open>hr\<close> from 0 to 23, the formatter gives in the
  24-hour format the two digits of the hour followed by \<open>:00\<close>, and in the 12-hour
  format the hour modulo 12, with 12 in place of 0, a space, and \<open>AM\<close> before noon
  or \<open>PM\<close> from noon on. Both scripts format alike.
\<close>

theorem C5_formatTime:
  assumes "getHours h ms = hr" and "getHours h (timestamp * 1000) = hr" and "hr < 24"
  shows "formatTime h True ms = [digitChar (hr div 10), digitChar (hr mod 10)] @ '':00''
       \<and> formatTime h False ms
           = showNat (if hr mod 12 = 0 then 12 else hr mod 12) @ '' ''
             @ (if hr < 12 then ''AM'' else ''PM'')
       \<and> formatTime_v2 h ''24'' timestamp = formatTime h True ms
       \<and> formatTime_v2 h ''12'' timestamp = formatTime h False ms"
  using assms by (auto simp: formatTime_def formatTime_v2_def padStart_two Let_def)

lemma formatTime_table_12:
  "map (\<lambda>n. formatTime utc False (int n * 3600000))
       [0, 1, 2, 3, 4, 5, 6, 7, 8, 9, 10, 11, 12, 13, 14, 15, 16, 17, 18, 19, 20, 21, 22, 23]
   = [''12 AM'', ''1 AM'', ''2 AM'', ''3 AM'', ''4 AM'', ''5 AM'', ''6 AM'', ''7 AM'', ''8 AM'',
      ''9 AM'', ''10 AM'', ''11 AM'', ''12 PM'', ''1 PM'', ''2 PM'', ''3 PM'', ''4 PM'', ''5 PM'',
      ''6 PM'', ''7 PM'', ''8 PM'', ''9 PM'', ''10 PM'', ''11 PM'']"
  by (simp add: formatTime_def utc_def showNat.simps digitChar_def)

lemma formatTime_table_24:
  "map (\<lambda>n. formatTime utc True (int n * 3600000))
       [0, 1, 2, 3, 4, 5, 6, 7, 8, 9, 10, 11, 12, 13, 14, 15, 16, 17, 18, 19, 20, 21, 22, 23]
   = [''00:00'', ''01:00'', ''02:00'', ''03:00'', ''04:00'', ''05:00'', ''06:00'', ''07:00'',
      ''08:00'', ''09:00'', ''10:00'', ''11:00'', ''12:00'', ''13:00'', ''14:00'', ''15:00'',
      ''16:00'', ''17:00'', ''18:00'', ''19:00'', ''20:00'', ''21:00'', ''22:00'', ''23:00'']"
  by (simp add: formatTime_def utc_def showNat.simps digitChar_def padStart_def)

theorem C5_formatTime_witness:
  "getHours utc 54000000 = 15 \<and> getHours utc (54000 * 1000) = 15 \<and> (15 :: nat) < 24
   \<and> formatTime utc True 54000000 = ''15:00''
   \<and> formatTime utc False 54000000 = ''3 PM''
   \<and> formatTime_v2 utc ''24'' 54000 = ''15:00''
   \<and> formatTime_v2 utc ''12'' 54000 = ''3 PM''
   \<and> formatTime utc False 0 = ''12 AM''"
proof -
  have a: "getHours utc 54000000 = 15" by (simp add: utc_def)
  have b: "getHours utc (54000 * 1000) = 15" by (simp add: utc_def)
  have c: "(15 :: nat) < 24" by simp
  have d: "showNat 3 = ''3''" by (simp add: showNat.simps digitChar_def)
  have e: "getHours utc 0 = 0" by (simp add: utc_def)
  have f: "getHours utc (0 * 1000) = 0" by (simp add: utc_def)
  have g: "showNat 12 = ''12''" by (simp add: showNat.simps digitChar_def)
  have "formatTime utc False 0 = ''12 AM''"
    using C5_formatTime [OF e f] by (simp add: g)
  then show ?thesis
    using a b c C5_formatTime [OF a b c] by (simp add: d digitChar_def)
qed


subsection \<open>The hourly view\<close>

lemma map_enumerate_snd: "map (\<lambda>(index, x). f x) (enumerate n xs) = map f xs"
  by (induction xs arbitrary: n) auto

lemma length_sortedBuckets: "length (sortedBuckets h xs) = length (sortedDays h xs)"
  by (simp add: sortedBuckets_def)

text \<open>
  Claim C2, as the code has it. For a day index with no bucket at that position, the
  hourly selection of \<^verbatim>\<open>part_001\<close> is absent and every hourly card is hidden, its
  contents untouched; the hourly selection of \<^verbatim>\<open>main.js\<close> falls back to the first eight
  samples of the whole list. Neither has a failing branch.
\<close>

theorem C2_hourly_out_of_range:
  "(dayIndex \<ge> length (groupForecastByDay h data) \<longrightarrow>
      selectedDayItems h data dayIndex = None
      \<and> updateHourlyForecast_v2 h unit fmt data dayIndex cards
          = map (\<lambda>card. card\<lparr>cardDisplay := ''none''\<rparr>) cards)
   \<and> (dayIndex \<ge> length (sortedBuckets h data) \<longrightarrow>
        hourlyData h data dayIndex = take 8 data)"
  by (simp add: selectedDayItems_def updateHourlyForecast_v2_def hourlyData_def
        length_sortedBuckets map_enumerate_snd Let_def)

lemma sortedDays_three: "sortedDays utc threeSamples = [0, 86400000]"
  by (simp add: sortedDays_def dailyForecasts_def threeSamples_def utc_def)

lemma groupForecastByDay_three: "length (groupForecastByDay utc threeSamples) = 2"
  by (simp add: groupForecastByDay_def threeSamples_def utc_def jsSet_def isArrayIndex_def showInt_def showNat.simps digitChar_def)

text \<open>
  Claim C2 as stated fails on \<^verbatim>\<open>main.js\<close>: with two buckets and day index 3 the
  selection is not empty, and the first hourly card is filled from a sample of the
  first day.
\<close>

theorem C2_hourly_counterexample:
  "length (sortedBuckets utc threeSamples) \<le> 3
   \<and> hourlyData utc threeSamples 3 = threeSamples
   \<and> hourlyData utc threeSamples 3 \<noteq> []
   \<and> hourlyTemp (hd (updateHourlyForecast utc False threeSamples 3 [blankCard])) = ''5'' @ deg"
proof -
  have a: "length (sortedBuckets utc threeSamples) \<le> 3"
    by (simp add: length_sortedBuckets sortedDays_three)
  have b: "hourlyData utc threeSamples 3 = threeSamples"
    by (simp add: hourlyData_def sortedDays_three Let_def) (simp add: threeSamples_def)
  have c: "threeSamples \<noteq> []" by (simp add: threeSamples_def)
  have d: "hourlyTemp (hd (updateHourlyForecast utc False threeSamples 3 [blankCard])) = ''5'' @ deg"
    unfolding updateHourlyForecast_def b
    by (simp add: threeSamples_def blankCard_def enumerate_eq_zip mathRound_def showInt_def showNat.simps digitChar_def upt_rec)
  show ?thesis using a b c d by simp
qed

theorem C2_hourly_out_of_range_witness:
  "length (groupForecastByDay utc threeSamples) \<le> 3
   \<and> selectedDayItems utc threeSamples 3 = None
   \<and> updateHourlyForecast_v2 utc ''celsius'' ''12'' threeSamples 3 [blankCard]
       = [blankCard\<lparr>cardDisplay := ''none''\<rparr>]
   \<and> length (sortedBuckets utc threeSamples) \<le> 3
   \<and> hourlyData utc threeSamples 3 = take 8 threeSamples"
proof -
  have a: "length (groupForecastByDay utc threeSamples) \<le> 3"
    by (simp add: groupForecastByDay_three)
  have b: "length (sortedBuckets utc threeSamples) \<le> 3"
    by (simp add: length_sortedBuckets sortedDays_three)
  show ?thesis
    using a b C2_hourly_out_of_range [where dayIndex = 3 and h = utc and data = threeSamples
            and unit = "''celsius''" and fmt = "''12''" and cards = "[blankCard]"]
    by simp
qed

subsection \<open>The representative condition code\<close>

lemma count_list_snoc: "count_list (xs @ [x]) c = count_list xs c + (if x = c then 1 else 0)"
  by (simp add: count_list_append)

lemma iconCounts_char:
  assumes "\<forall>c \<in> set cs. \<not> isArrayIndex c"
  shows "iconCounts cs = map (\<lambda>c. (c, count_list cs c)) (firstSeen cs)"
  using assms
proof (induction cs rule: rev_induct)
  case Nil
  then show ?case by (simp add: iconCounts_def)
next
  case (snoc x xs)
  let ?ks = "firstSeen xs"
  have ih: "iconCounts xs = map (\<lambda>c. (c, count_list xs c)) ?ks"
    using snoc by simp
  have nx: "\<not> isArrayIndex x" using snoc.prems by simp
  have step: "iconCounts (xs @ [x])
        = assign x ((case map_of (iconCounts xs) x of None \<Rightarrow> 0 | Some c \<Rightarrow> c) + 1) (iconCounts xs)"
    using nx by (simp add: iconCounts_def jsSet_plain)
  show ?case
  proof (cases "x \<in> set xs")
    case True
    then have "iconCounts (xs @ [x])
        = map (\<lambda>c. (c, if c = x then count_list xs x + 1 else count_list xs c)) ?ks"
      unfolding step ih by (simp add: map_of_tabulate assign_old)
    also have "\<dots> = map (\<lambda>c. (c, count_list (xs @ [x]) c)) ?ks"
      by (intro map_cong) (auto simp: count_list_snoc)
    finally show ?thesis using True by (simp add: firstSeen_snoc)
  next
    case False
    then have z: "count_list xs x = 0" by (simp add: count_list_0_iff)
    from False have "iconCounts (xs @ [x])
        = map (\<lambda>c. (c, count_list xs c)) ?ks @ [(x, 1)]"
      unfolding step ih by (simp add: map_of_tabulate assign_new)
    moreover have "map (\<lambda>c. (c, count_list xs c)) ?ks = map (\<lambda>c. (c, count_list (xs @ [x]) c)) ?ks"
      using False by (intro map_cong) (auto simp: count_list_snoc)
    ultimately show ?thesis using False z by (simp add: firstSeen_snoc count_list_snoc)
  qed
qed

lemma find_snoc: "find P (xs @ [x]) = (case find P xs of None \<Rightarrow> (if P x then Some x else None) | Some y \<Rightarrow> Some y)"
  by (induction xs) auto

lemma find_firstSeen: "find P (firstSeen xs) = find P xs"
proof (induction xs rule: rev_induct)
  case Nil
  then show ?case by simp
next
  case (snoc x xs)
  show ?case
  proof (cases "x \<in> set xs")
    case True
    then have "find P xs = None \<Longrightarrow> \<not> P x" by (auto simp: find_None_iff)
    then show ?thesis using True snoc
      by (auto simp: firstSeen_snoc find_snoc split: option.splits)
  next
    case False
    then show ?thesis using snoc by (simp add: firstSeen_snoc find_snoc)
  qed
qed

lemma argmax_fold:
  "fst (foldl (\<lambda>(mostCommon, highestCount) (c, n).
                 if n > highestCount then (Some c, n) else (mostCommon, highestCount))
              (m, h) (map (\<lambda>c. (c, f c)) ks))
   = (if \<forall>c \<in> set ks. f c \<le> h then m else find (\<lambda>c. \<forall>d \<in> set ks. f d \<le> f c) ks)"
  for f :: "'a \<Rightarrow> nat"
proof (induction ks arbitrary: m h)
  case Nil
  then show ?case by simp
next
  case (Cons c rest)
  let ?P = "\<lambda>ks c. \<forall>d \<in> set ks. f d \<le> f c"
  show ?case
  proof (cases "f c > h")
    case True
    show ?thesis
    proof (cases "\<forall>d \<in> set rest. f d \<le> f c")
      case all: True
      then show ?thesis using True Cons.IH [of "Some c" "f c"] by auto
    next
      case some: False
      then obtain e where e: "e \<in> set rest" "f c < f e" by (auto simp: not_le)
      have "\<And>d. d \<in> set rest \<Longrightarrow> ?P (c # rest) d = ?P rest d"
        using e by (auto intro: order_trans less_imp_le)
      then have "find (?P (c # rest)) rest = find (?P rest) rest"
        by (intro find_cong) auto
      moreover have "\<not> ?P (c # rest) c" using e by (auto simp: not_le)
      ultimately show ?thesis using True some Cons.IH [of "Some c" "f c"] by auto
    qed
  next
    case False
    show ?thesis
    proof (cases "\<forall>d \<in> set rest. f d \<le> h")
      case all: True
      then show ?thesis using False Cons.IH [of m h] by auto
    next
      case some: False
      then obtain e where e: "e \<in> set rest" "h < f e" by (auto simp: not_le)
      then have ce: "f c < f e" using False by simp
      have "\<And>d. d \<in> set rest \<Longrightarrow> ?P (c # rest) d = ?P rest d"
        using e ce by (auto intro: order_trans less_imp_le)
      then have "find (?P (c # rest)) rest = find (?P rest) rest"
        by (intro find_cong) auto
      moreover have "\<not> ?P (c # rest) c" using e ce by (auto simp: not_le)
      ultimately show ?thesis using False some Cons.IH [of m h] by auto
    qed
  qed
qed

lemma getMostCommonIcon_firstMode:
  assumes ne: "cs \<noteq> []" and ni: "\<forall>c \<in> set cs. \<not> isArrayIndex c"
  shows "getMostCommonIcon cs = firstMode cs"
proof -
  obtain x xs where cs: "cs = x # xs" using ne by (cases cs) auto
  have pos: "\<not> (\<forall>c \<in> set (firstSeen cs). count_list cs c \<le> 0)"
    using cs by (auto simp: count_list_0_iff)
  have "getMostCommonIcon cs
        = fst (foldl (\<lambda>(mostCommon, highestCount) (c, n).
                 if n > highestCount then (Some c, n) else (mostCommon, highestCount))
              (Some x, 0) (map (\<lambda>c. (c, count_list cs c)) (firstSeen cs)))"
  proof -
    have hd: "(case cs of [] \<Rightarrow> None | first # _ \<Rightarrow> Some first) = Some x"
      by (simp add: cs)
    show ?thesis
      unfolding getMostCommonIcon_def Let_def hd iconCounts_char [OF ni] ..
  qed
  also have "\<dots> = find (\<lambda>c. \<forall>d \<in> set (firstSeen cs). count_list cs d \<le> count_list cs c) (firstSeen cs)"
    using pos by (simp only: argmax_fold if_False)
  also have "\<dots> = find (isMode cs) (firstSeen cs)"
  proof -
    have "isMode cs = (\<lambda>c. \<forall>d \<in> set cs. count_list cs d \<le> count_list cs c)"
      by (rule ext) (simp add: isMode_def list_all_iff)
    then show ?thesis by simp
  qed
  also have "\<dots> = firstMode cs"
    by (simp add: firstMode_def find_firstSeen)
  finally show ?thesis .
qed

lemma firstMode_props:
  assumes "cs \<noteq> []"
  shows "\<exists>m pre post. firstMode cs = Some m \<and> cs = pre @ m # post
           \<and> (\<forall>c \<in> set cs. count_list cs c \<le> count_list cs m)
           \<and> (\<forall>c \<in> set pre. count_list cs c < count_list cs m)"
proof -
  let ?n = "\<lambda>c. count_list cs c"
  have "finite (?n ` set cs)" "?n ` set cs \<noteq> {}" using assms by auto
  then have "Max (?n ` set cs) \<in> ?n ` set cs" by (rule Max_in)
  then obtain c0 where c0: "c0 \<in> set cs" "?n c0 = Max (?n ` set cs)" by auto
  then have "isMode cs c0" by (auto simp: isMode_def list_all_iff)
  with c0 obtain m where m: "firstMode cs = Some m"
    by (cases "firstMode cs") (auto simp: firstMode_def find_None_iff)
  then obtain i where i: "i < length cs" "isMode cs (cs ! i)" "m = cs ! i"
      "\<forall>j < i. \<not> isMode cs (cs ! j)"
    by (auto simp: firstMode_def find_Some_iff)
  let ?pre = "take i cs" and ?post = "drop (Suc i) cs"
  have split: "cs = ?pre @ m # ?post" using i by (simp add: id_take_nth_drop)
  have mx: "\<forall>c \<in> set cs. ?n c \<le> ?n m" using i by (simp add: isMode_def list_all_iff)
  have "\<forall>c \<in> set ?pre. ?n c < ?n m"
  proof
    fix c assume "c \<in> set ?pre"
    then obtain j where j: "j < i" "c = cs ! j" using i(1) by (auto simp: in_set_conv_nth)
    then have "\<not> isMode cs c" using i by simp
    then obtain d where d: "d \<in> set cs" "?n c < ?n d" by (auto simp: isMode_def list_all_iff not_le)
    then show "?n c < ?n m" using mx by (meson le_trans not_le)
  qed
  then show ?thesis using m split mx by blast
qed

lemma dailyData_char:
  "dailyData h xs
   = map (\<lambda>k. (k, \<lparr>temps = map temp (filter (\<lambda>x. midnight h (dt x * 1000) = k) xs),
                     icons = map icon (filter (\<lambda>x. midnight h (dt x * 1000) = k) xs),
                     date = k\<rparr>))
         (firstSeen (map (\<lambda>x. midnight h (dt x * 1000)) xs))"
proof (induction xs rule: rev_induct)
  case Nil
  then show ?case by (simp add: dailyData_def)
next
  case (snoc x xs)
  let ?key = "\<lambda>x. midnight h (dt x * 1000)"
  let ?ks = "firstSeen (map ?key xs)"
  let ?e = "\<lambda>ys k. \<lparr>temps = map temp (filter (\<lambda>x. ?key x = k) ys),
                     icons = map icon (filter (\<lambda>x. ?key x = k) ys), date = k\<rparr>"
  have step: "dailyData h (xs @ [x])
     = (let entry = (case map_of (dailyData h xs) (?key x) of
                       None \<Rightarrow> \<lparr>temps = [], icons = [], date = ?key x\<rparr> | Some e \<Rightarrow> e)
        in assign (?key x) (entry\<lparr>temps := temps entry @ [temp x], icons := icons entry @ [icon x]\<rparr>)
             (dailyData h xs))"
    by (simp add: dailyData_def Let_def)
  show ?case
  proof (cases "?key x \<in> set ?ks")
    case True
    have "dailyData h (xs @ [x])
          = map (\<lambda>k. (k, if k = ?key x
                           then (?e xs (?key x))\<lparr>temps := temps (?e xs (?key x)) @ [temp x],
                                                  icons := icons (?e xs (?key x)) @ [icon x]\<rparr>
                           else ?e xs k)) ?ks"
      unfolding step snoc.IH using True by (simp add: map_of_tabulate assign_old Let_def)
    also have "\<dots> = map (\<lambda>k. (k, ?e (xs @ [x]) k)) ?ks"
      by (intro map_cong) auto
    finally show ?thesis using True by (simp add: firstSeen_snoc)
  next
    case False
    then have f: "filter (\<lambda>y. ?key y = ?key x) xs = []"
      by (auto simp: filter_empty_conv) (metis imageI)
    have "dailyData h (xs @ [x])
          = map (\<lambda>k. (k, ?e xs k)) ?ks @ [(?key x, \<lparr>temps = [temp x], icons = [icon x], date = ?key x\<rparr>)]"
      unfolding step snoc.IH using False by (simp add: map_of_tabulate assign_new Let_def)
    moreover have "map (\<lambda>k. (k, ?e xs k)) ?ks = map (\<lambda>k. (k, ?e (xs @ [x]) k)) ?ks"
      using False by (intro map_cong) auto
    ultimately show ?thesis using False f by (simp add: firstSeen_snoc)
  qed
qed

text \<open>
  Claim C3, as the code has it. For a non-empty list of condition codes, none of them
  an array-index key, \<^verbatim>\<open>getMostCommonIcon\<close> of \<^verbatim>\<open>main.js\<close> returns the code with the
  highest number of occurrences, and among several such codes the one that occurs
  first. The daily view of \<^verbatim>\<open>part_001\<close> shows the code of the day's first sample
  instead. On \<open>["10d", "10d", "01d"]\<close> and on \<open>["10d", "01d"]\<close> both give \<open>"10d"\<close>.
\<close>

theorem C3_representative_code:
  "(cs \<noteq> [] \<and> (\<forall>c \<in> set cs. \<not> isArrayIndex c) \<longrightarrow>
      getMostCommonIcon cs = firstMode cs
      \<and> (\<exists>m pre post. getMostCommonIcon cs = Some m \<and> cs = pre @ m # post
            \<and> (\<forall>c \<in> set cs. count_list cs c \<le> count_list cs m)
            \<and> (\<forall>c \<in> set pre. count_list cs c < count_list cs m)))
   \<and> dayIconCode (first # rest) = Some (icon first)
   \<and> getMostCommonIcon [''10d'', ''10d'', ''01d''] = Some ''10d''
   \<and> getMostCommonIcon [''10d'', ''01d''] = Some ''10d''"
proof -
  have a: "cs \<noteq> [] \<and> (\<forall>c \<in> set cs. \<not> isArrayIndex c) \<longrightarrow>
      getMostCommonIcon cs = firstMode cs
      \<and> (\<exists>m pre post. getMostCommonIcon cs = Some m \<and> cs = pre @ m # post
            \<and> (\<forall>c \<in> set cs. count_list cs c \<le> count_list cs m)
            \<and> (\<forall>c \<in> set pre. count_list cs c < count_list cs m))"
  proof
    assume h: "cs \<noteq> [] \<and> (\<forall>c \<in> set cs. \<not> isArrayIndex c)"
    then have e: "getMostCommonIcon cs = firstMode cs"
      by (simp add: getMostCommonIcon_firstMode)
    show "getMostCommonIcon cs = firstMode cs
      \<and> (\<exists>m pre post. getMostCommonIcon cs = Some m \<and> cs = pre @ m # post
            \<and> (\<forall>c \<in> set cs. count_list cs c \<le> count_list cs m)
            \<and> (\<forall>c \<in> set pre. count_list cs c < count_list cs m))"
      unfolding e using firstMode_props [of cs] h by simp
  qed
  have b: "dayIconCode (first # rest) = Some (icon first)"
    by (simp add: dayIconCode_def)
  have n: "\<not> isArrayIndex ''10d''" "\<not> isArrayIndex ''01d''"
    by (simp_all add: isArrayIndex_def)
  have c: "getMostCommonIcon [''10d'', ''10d'', ''01d''] = Some ''10d''"
    by (simp add: getMostCommonIcon_def iconCounts_def jsSet_plain n)
  have d: "getMostCommonIcon [''10d'', ''01d''] = Some ''10d''"
    by (simp add: getMostCommonIcon_def iconCounts_def jsSet_plain n)
  show ?thesis using a b c d by blast
qed

theorem C3_representative_code_witness:
  "[''01d'', ''10d'', ''10d''] \<noteq> []
   \<and> list_all (\<lambda>c. \<not> isArrayIndex c) [''01d'', ''10d'', ''10d'']
   \<and> getMostCommonIcon [''01d'', ''10d'', ''10d''] = Some ''10d''
   \<and> firstMode [''01d'', ''10d'', ''10d''] = Some ''10d''"
proof -
  have n: "\<not> isArrayIndex ''10d''" "\<not> isArrayIndex ''01d''"
    by (simp_all add: isArrayIndex_def)
  have f: "firstMode [''01d'', ''10d'', ''10d''] = Some ''10d''"
    by (simp add: firstMode_def isMode_def)
  have "getMostCommonIcon [''01d'', ''10d'', ''10d''] = firstMode [''01d'', ''10d'', ''10d'']"
    using C3_representative_code [of "[''01d'', ''10d'', ''10d'']"] n by simp
  then show ?thesis using n f by simp
qed

lemma groupForecastByDay_rainyDay: "groupForecastByDay utc rainyDay = [rainyDay]"
  by (simp add: groupForecastByDay_def rainyDay_def utc_def jsSet_def isArrayIndex_def showInt_def showNat.simps digitChar_def)

text \<open>
  Claim C3 as stated fails on \<^verbatim>\<open>part_001\<close>: for a day whose codes are
  \<open>["01d", "10d", "10d"]\<close> the most frequent code is \<open>"10d"\<close>, and the daily card shows
  the icon of \<open>"01d"\<close>.
\<close>

theorem C3_representative_code_counterexample:
  "map icon rainyDay = [''01d'', ''10d'', ''10d'']
   \<and> firstMode (map icon rainyDay) = Some ''10d''
   \<and> dayIconCode rainyDay = Some ''01d''
   \<and> dayIcon (hd (updateDailyForecast_v2 utc ''celsius'' rainyDay [blankDailyCard]))
       = weatherIconMap ''01d''"
proof -
  have a: "map icon rainyDay = [''01d'', ''10d'', ''10d'']" by (simp add: rainyDay_def)
  have b: "firstMode [''01d'', ''10d'', ''10d''] = Some ''10d''"
    by (simp add: firstMode_def isMode_def)
  have c: "dayIconCode rainyDay = Some ''01d''" by (simp add: dayIconCode_def rainyDay_def)
  have d: "dayIcon (hd (updateDailyForecast_v2 utc ''celsius'' rainyDay [blankDailyCard]))
       = weatherIconMap ''01d''"
    unfolding updateDailyForecast_v2_def groupForecastByDay_rainyDay
    by (simp add: c enumerate_eq_zip upt_rec) (simp add: rainyDay_def)
  show ?thesis using a b c d by simp
qed
lemma getMostCommonIcon_index_keys:
  "getMostCommonIcon [''10'', ''2''] = Some ''2''"
  by (simp add: getMostCommonIcon_def iconCounts_def jsSet_def isArrayIndex_def indexValue_def)

subsection \<open>The rounded extremes of a day\<close>

lemma mathMax_Max: "xs \<noteq> [] \<Longrightarrow> mathMax xs = Some (Max (set xs))"
proof (cases xs)
  case Nil
  assume "xs \<noteq> []"
  with Nil show ?thesis by simp
next
  case (Cons a list)
  then show ?thesis using Max.set_eq_fold [of a list] by simp
qed

lemma mathMin_Min: "xs \<noteq> [] \<Longrightarrow> mathMin xs = Some (Min (set xs))"
proof (cases xs)
  case Nil
  assume "xs \<noteq> []"
  with Nil show ?thesis by simp
next
  case (Cons a list)
  then show ?thesis using Min.set_eq_fold [of a list] by simp
qed

text \<open>
  Claim C7. For a non-empty day bucket, the maximum shown for the day is the greatest
  raw temperature of the bucket rounded to the nearest integer, and the minimum the
  least one rounded; a bucket of one sample has equal minimum and maximum; the
  temperatures 18.2, 20.9 and 16.4 give 21 and 16. (\<^verbatim>\<open>part_001\<close> converts the two
  rounded values to Fahrenheit when that unit is selected.)
\<close>

theorem C7_day_extremes:
  "(bucket \<noteq> [] \<longrightarrow>
      maxTemp (map temp bucket) = Some (round (Max (temp ` set bucket)))
      \<and> minTemp (map temp bucket) = Some (round (Min (temp ` set bucket)))
      \<and> dayMaxTemp ''celsius'' bucket = Some (round (Max (temp ` set bucket)))
      \<and> dayMinTemp ''celsius'' bucket = Some (round (Min (temp ` set bucket)))
      \<and> dayMaxTemp ''fahrenheit'' bucket
          = Some (celsiusToFahrenheit (of_int (round (Max (temp ` set bucket)))))
      \<and> dayMinTemp ''fahrenheit'' bucket
          = Some (celsiusToFahrenheit (of_int (round (Min (temp ` set bucket))))))
   \<and> maxTemp [t] = Some (round t) \<and> minTemp [t] = maxTemp [t]
   \<and> maxTemp [18.2, 20.9, 16.4] = Some 21
   \<and> minTemp [18.2, 20.9, 16.4] = Some 16"
proof -
  have a: "bucket \<noteq> [] \<longrightarrow>
      maxTemp (map temp bucket) = Some (round (Max (temp ` set bucket)))
      \<and> minTemp (map temp bucket) = Some (round (Min (temp ` set bucket)))"
    by (simp add: maxTemp_def minTemp_def mathMax_Max mathMin_Min mathRound_round)
  then have b: "bucket \<noteq> [] \<longrightarrow>
      dayMaxTemp ''celsius'' bucket = Some (round (Max (temp ` set bucket)))
      \<and> dayMinTemp ''celsius'' bucket = Some (round (Min (temp ` set bucket)))
      \<and> dayMaxTemp ''fahrenheit'' bucket
          = Some (celsiusToFahrenheit (of_int (round (Max (temp ` set bucket)))))
      \<and> dayMinTemp ''fahrenheit'' bucket
          = Some (celsiusToFahrenheit (of_int (round (Min (temp ` set bucket)))))"
    by (simp add: dayMaxTemp_def dayMinTemp_def)
  have c: "maxTemp [t] = Some (round t) \<and> minTemp [t] = maxTemp [t]"
    by (simp add: maxTemp_def minTemp_def mathRound_round)
  have d: "maxTemp [18.2, 20.9, 16.4] = Some 21"
    by (simp add: maxTemp_def mathRound_def)
  have e: "minTemp [18.2, 20.9, 16.4] = Some 16"
    by (simp add: minTemp_def mathRound_def)
  show ?thesis using a b c d e by blast
qed

theorem C7_day_extremes_witness:
  "rainyDay \<noteq> []
   \<and> map temp rainyDay = [18.2, 20.9, 16.4]
   \<and> maxTemp (map temp rainyDay) = Some 21
   \<and> minTemp (map temp rainyDay) = Some 16
   \<and> dayMaxTemp ''celsius'' rainyDay = Some 21
   \<and> dayMaxTemp ''fahrenheit'' rainyDay = Some 70"
proof -
  have ne: "rainyDay \<noteq> []" by (simp add: rainyDay_def)
  have t: "map temp rainyDay = [18.2, 20.9, 16.4]" by (simp add: rainyDay_def)
  have s: "temp ` set rainyDay = {18.2, 20.9, 16.4}" by (simp add: rainyDay_def)
  have mx: "Max {18.2, 20.9, 16.4 :: real} = 20.9" by simp
  have mn: "Min {18.2, 20.9, 16.4 :: real} = 16.4" by simp
  have r1: "round (20.9 :: real) = 21" by (simp add: round_def)
  have r2: "round (82 / 5 :: real) = 16" by (simp add: round_def)
  have f: "celsiusToFahrenheit 21 = 70" using celsiusToFahrenheit_int [of 21] by simp
  show ?thesis
    using ne t C7_day_extremes [of rainyDay] by (simp add: s mx mn r1 r2 f)
qed

subsection \<open>Ranking of city suggestions\<close>

lemma compareCities_rankKey:
  "(compareCities priority a b \<le> 0) = (rankKey priority a \<le> rankKey priority b)"
  by (auto simp: compareCities_def rankKey_def Let_def less_eq_prod_def)

lemma prioritizeCitiesWith_sort_key:
  "prioritizeCitiesWith priority cities = sort_key (rankKey priority) cities"
  unfolding prioritizeCitiesWith_def
  by (rule sortCmp_sort_key) (rule compareCities_rankKey)

lemma rankKey_le:
  "(rankKey priority a \<le> rankKey priority b)
   = ((country a \<in> set priority \<and> country b \<notin> set priority)
      \<or> ((country a \<in> set priority) = (country b \<in> set priority)
          \<and> populationOr0 b \<le> populationOr0 a))"
  by (auto simp: rankKey_def less_eq_prod_def)

text \<open>
  Claim C8. The ranking of city suggestions returns a permutation of its input in
  which every entry of a priority country precedes every other entry, the population
  descends within each of the two groups, and entries of equal priority and equal
  population keep their input order. When \<open>USA\<close> is a priority country and
  \<open>France\<close> is not, Paris in the USA (25 thousand) precedes Paris in France
  (2 million).
\<close>

theorem C8_prioritizeCities:
  "(let ranked = prioritizeCitiesWith priority cities
    in mset ranked = mset cities
       \<and> (\<forall>i j. i < j \<and> j < length ranked \<and> country (ranked ! j) \<in> set priority
              \<longrightarrow> country (ranked ! i) \<in> set priority)
       \<and> (\<forall>i j. i < j \<and> j < length ranked
                \<and> (country (ranked ! i) \<in> set priority) = (country (ranked ! j) \<in> set priority)
              \<longrightarrow> populationOr0 (ranked ! i) \<ge> populationOr0 (ranked ! j))
       \<and> (\<forall>p n. filter (\<lambda>c. (country c \<in> set priority) = p \<and> populationOr0 c = n) ranked
                = filter (\<lambda>c. (country c \<in> set priority) = p \<and> populationOr0 c = n) cities))
   \<and> (''USA'' \<in> set priority \<and> ''France'' \<notin> set priority
        \<longrightarrow> prioritizeCitiesWith priority [parisFrance, parisUSA] = [parisUSA, parisFrance])
   \<and> prioritizeCities cities = prioritizeCitiesWith PRIORITY_COUNTRIES cities"
proof -
  let ?r = "prioritizeCitiesWith priority cities"
  let ?k = "rankKey priority"
  have r: "?r = sort_key ?k cities" by (rule prioritizeCitiesWith_sort_key)
  have m: "mset ?r = mset cities" by (simp add: r)
  have sorted: "sorted (map ?k ?r)" by (simp add: r)
  have le: "\<And>i j. i < j \<Longrightarrow> j < length ?r \<Longrightarrow> ?k (?r ! i) \<le> ?k (?r ! j)"
  proof -
    fix i j assume ij: "i < j" "j < length ?r"
    then have "map ?k ?r ! i \<le> map ?k ?r ! j"
      using sorted by (simp add: sorted_iff_nth_mono)
    then show "?k (?r ! i) \<le> ?k (?r ! j)" using ij by simp
  qed
  have a: "\<forall>i j. i < j \<and> j < length ?r \<and> country (?r ! j) \<in> set priority
              \<longrightarrow> country (?r ! i) \<in> set priority"
    using le by (auto simp: rankKey_le)
  have b: "\<forall>i j. i < j \<and> j < length ?r
                \<and> (country (?r ! i) \<in> set priority) = (country (?r ! j) \<in> set priority)
              \<longrightarrow> populationOr0 (?r ! i) \<ge> populationOr0 (?r ! j)"
    using le by (auto simp: rankKey_le)
  have c: "\<forall>p n. filter (\<lambda>c. (country c \<in> set priority) = p \<and> populationOr0 c = n) ?r
                = filter (\<lambda>c. (country c \<in> set priority) = p \<and> populationOr0 c = n) cities"
  proof (intro allI)
    fix p n
    have "(\<lambda>c. (country c \<in> set priority) = p \<and> populationOr0 c = n)
          = (\<lambda>c. ?k c = (if p then 0 else 1, - n))"
      by (rule ext) (auto simp: rankKey_def)
    then show "filter (\<lambda>c. (country c \<in> set priority) = p \<and> populationOr0 c = n) ?r
                = filter (\<lambda>c. (country c \<in> set priority) = p \<and> populationOr0 c = n) cities"
      by (simp only: r sort_key_stable)
  qed
  have d: "''USA'' \<in> set priority \<and> ''France'' \<notin> set priority
        \<longrightarrow> prioritizeCitiesWith priority [parisFrance, parisUSA] = [parisUSA, parisFrance]"
    by (simp add: prioritizeCitiesWith_def compareCities_def parisFrance_def parisUSA_def)
  have e: "prioritizeCities cities = prioritizeCitiesWith PRIORITY_COUNTRIES cities"
    by (simp add: prioritizeCities_def)
  show ?thesis unfolding Let_def using m a b c d e by blast
qed

lemma prioritizeCities_paris:
  "prioritizeCities [parisFrance, parisUSA] = [parisFrance, parisUSA]"
  by (simp add: prioritizeCities_def prioritizeCitiesWith_def compareCities_def
      PRIORITY_COUNTRIES_def parisFrance_def parisUSA_def populationOr0_def)

theorem C8_prioritizeCities_witness:
  "''USA'' \<in> set [''USA'', ''Canada''] \<and> ''France'' \<notin> set [''USA'', ''Canada'']
   \<and> prioritizeCitiesWith [''USA'', ''Canada''] [parisFrance, parisUSA] = [parisUSA, parisFrance]"
  using C8_prioritizeCities [of "[''USA'', ''Canada'']" "[parisFrance, parisUSA]"]
  by simp

subsection \<open>Failure of the weather fetch\<close>

lemma sentinelFields_showFetchError [simp]: "sentinelFields (showFetchError c p)"
  by (simp add: sentinelFields_def showFetchError_def)

lemma sentinelFields_showFetchError_v2 [simp]: "sentinelFields (showFetchError_v2 c p)"
  by (simp add: sentinelFields_def showFetchError_v2_def)

lemma locationName_showFetchError [simp]:
  "locationName (showFetchError c p) = ''Could not find weather for '' @ dquote @ c @ dquote"
  by (simp add: showFetchError_def)

lemma locationName_showFetchError_v2 [simp]:
  "locationName (showFetchError_v2 c p) = ''Could not find '' @ dquote @ c @ dquote"
  by (simp add: showFetchError_v2_def)

lemma fetchWeatherForCity_first_fails:
  assumes "fetch (weatherUrl c) = NetworkError \<or> (\<exists>b. fetch (weatherUrl c) = Http False b)"
  shows "fetchWeatherForCity h fetch c s
         = s\<lparr>requests := requests s @ [weatherUrl c], panel := showFetchError c (panel s)\<rparr>"
  using assms by (auto simp: fetchWeatherForCity_def Let_def)

lemma fetchWeatherForCity_second_fails:
  assumes "fetch (weatherUrl c) = Http True (Some (WeatherJson cur))"
    and "fetch (forecastUrl c) = NetworkError \<or> (\<exists>b. fetch (forecastUrl c) = Http False b)"
  shows "fetchWeatherForCity h fetch c s
         = s\<lparr>requests := requests s @ [weatherUrl c, forecastUrl c],
              panel := showFetchError c (updateCurrentWeather h (currentWindUnit s) cur (panel s))\<rparr>"
  using assms by (auto simp: fetchWeatherForCity_def Let_def)

lemma fetchWeather_first_fails:
  assumes "fetch (weatherUrl (city_v2 s)) = NetworkError
           \<or> (\<exists>b. fetch (weatherUrl (city_v2 s)) = Http False b)"
  shows "fetchWeather h fetch s
         = s\<lparr>requests := requests s @ [weatherUrl (city_v2 s)],
              panel := showFetchError_v2 (city_v2 s) (panel s), loading := False\<rparr>"
  using assms by (auto simp: fetchWeather_def Let_def)

lemma fetchWeather_second_fails:
  assumes "fetch (weatherUrl (city_v2 s)) = Http True (Some (WeatherJson cur))"
    and "fetch (forecastUrl (city_v2 s)) = NetworkError
         \<or> (\<exists>ok. fetch (forecastUrl (city_v2 s)) = Http ok None)"
  shows "fetchWeather h fetch s
         = s\<lparr>requests := requests s @ [weatherUrl (city_v2 s), forecastUrl (city_v2 s)],
              panel := showFetchError_v2 (city_v2 s) (panel s), loading := False\<rparr>"
  using assms by (auto simp: fetchWeather_def Let_def)

lemma fetchWeather_no_list:
  assumes "fetch (weatherUrl (city_v2 s)) = Http True (Some (WeatherJson cur))"
    and "fetch (forecastUrl (city_v2 s)) = Http ok (Some body)"
    and "\<forall>l. body \<noteq> ForecastJson l"
  shows "fetchWeather h fetch s
         = s\<lparr>requests := requests s @ [weatherUrl (city_v2 s), forecastUrl (city_v2 s)],
              globalForecastData := Some body,
              panel := showFetchError_v2 (city_v2 s)
                         (updateCurrentWeather_v2 h (currentUnit s) (currentSpeedUnit s) cur (panel s)),
              loading := False\<rparr>"
  using assms by (cases body) (auto simp: fetchWeather_def Let_def)


text \<open>
  Claim C9, as the code has it. When the current-weather request fails (transport error
  or non-success status), or when after a good current-weather answer the forecast
  request fails, the fetch ends in the error state and nothing is thrown further: the
  location line reads \<open>Could not find weather for "X"\<close> in \<^verbatim>\<open>main.js\<close> and
  \<open>Could not find "X"\<close> in \<^verbatim>\<open>part_001\<close>, the five numeric fields of the
  current-conditions panel show their \<open>--\<close> sentinels, the daily and hourly cards and
  the persistent store are left as they were, and the two requests are issued at most
  once each. For \<^verbatim>\<open>part_001\<close> a failing forecast request is a transport error, a body
  that is not JSON, or a body without a sample list; it does not look at the status of
  the forecast response.
\<close>

theorem C9_fetch_failure:
  fixes s :: app and s2 :: app_v2
  shows
  "((fetch (weatherUrl c) = NetworkError \<or> (\<exists>b. fetch (weatherUrl c) = Http False b)
      \<or> (\<exists>cur. fetch (weatherUrl c) = Http True (Some (WeatherJson cur))
             \<and> (fetch (forecastUrl c) = NetworkError
                 \<or> (\<exists>b. fetch (forecastUrl c) = Http False b))))
     \<longrightarrow> (let s' = fetchWeatherForCity h fetch c s
          in locationName (panel s') = ''Could not find weather for '' @ dquote @ c @ dquote
             \<and> sentinelFields (panel s')
             \<and> dailyCards s' = dailyCards s \<and> hourlyCards s' = hourlyCards s
             \<and> localStorage s' = localStorage s
             \<and> (requests s' = requests s @ [weatherUrl c]
                 \<or> requests s' = requests s @ [weatherUrl c, forecastUrl c])))
   \<and> ((fetch (weatherUrl (city_v2 s2)) = NetworkError
        \<or> (\<exists>b. fetch (weatherUrl (city_v2 s2)) = Http False b)
        \<or> (\<exists>cur. fetch (weatherUrl (city_v2 s2)) = Http True (Some (WeatherJson cur))
               \<and> (fetch (forecastUrl (city_v2 s2)) = NetworkError
                   \<or> (\<exists>ok. fetch (forecastUrl (city_v2 s2)) = Http ok None)
                   \<or> (\<exists>ok body. fetch (forecastUrl (city_v2 s2)) = Http ok (Some body)
                                   \<and> (\<forall>l. body \<noteq> ForecastJson l)))))
     \<longrightarrow> (let s' = fetchWeather h fetch s2
          in locationName (panel s') = ''Could not find '' @ dquote @ city_v2 s2 @ dquote
             \<and> sentinelFields (panel s')
             \<and> dailyCards s' = dailyCards s2 \<and> hourlyCards s' = hourlyCards s2
             \<and> localStorage s' = localStorage s2 \<and> loading s' = False
             \<and> (requests s' = requests s2 @ [weatherUrl (city_v2 s2)]
                 \<or> requests s' = requests s2 @ [weatherUrl (city_v2 s2), forecastUrl (city_v2 s2)])))"
proof (intro conjI impI)
  assume "fetch (weatherUrl c) = NetworkError \<or> (\<exists>b. fetch (weatherUrl c) = Http False b)
      \<or> (\<exists>cur. fetch (weatherUrl c) = Http True (Some (WeatherJson cur))
             \<and> (fetch (forecastUrl c) = NetworkError
                 \<or> (\<exists>b. fetch (forecastUrl c) = Http False b)))"
  then consider
      (first) "fetch (weatherUrl c) = NetworkError \<or> (\<exists>b. fetch (weatherUrl c) = Http False b)"
    | (second) cur where "fetch (weatherUrl c) = Http True (Some (WeatherJson cur))"
        "fetch (forecastUrl c) = NetworkError \<or> (\<exists>b. fetch (forecastUrl c) = Http False b)"
    by blast
  then show "let s' = fetchWeatherForCity h fetch c s
          in locationName (panel s') = ''Could not find weather for '' @ dquote @ c @ dquote
             \<and> sentinelFields (panel s')
             \<and> dailyCards s' = dailyCards s \<and> hourlyCards s' = hourlyCards s
             \<and> localStorage s' = localStorage s
             \<and> (requests s' = requests s @ [weatherUrl c]
                 \<or> requests s' = requests s @ [weatherUrl c, forecastUrl c])"
  proof cases
    case first
    then show ?thesis by (simp add: fetchWeatherForCity_first_fails)
  next
    case second
    then show ?thesis by (simp add: fetchWeatherForCity_second_fails)
  qed
next
  let ?c = "city_v2 s2"
  assume "fetch (weatherUrl ?c) = NetworkError
        \<or> (\<exists>b. fetch (weatherUrl ?c) = Http False b)
        \<or> (\<exists>cur. fetch (weatherUrl ?c) = Http True (Some (WeatherJson cur))
               \<and> (fetch (forecastUrl ?c) = NetworkError
                   \<or> (\<exists>ok. fetch (forecastUrl ?c) = Http ok None)
                   \<or> (\<exists>ok body. fetch (forecastUrl ?c) = Http ok (Some body)
                                   \<and> (\<forall>l. body \<noteq> ForecastJson l))))"
  then consider
      (first) "fetch (weatherUrl ?c) = NetworkError \<or> (\<exists>b. fetch (weatherUrl ?c) = Http False b)"
    | (second) cur where "fetch (weatherUrl ?c) = Http True (Some (WeatherJson cur))"
        "fetch (forecastUrl ?c) = NetworkError \<or> (\<exists>ok. fetch (forecastUrl ?c) = Http ok None)"
    | (third) cur ok body where "fetch (weatherUrl ?c) = Http True (Some (WeatherJson cur))"
        "fetch (forecastUrl ?c) = Http ok (Some body)" "\<forall>l. body \<noteq> ForecastJson l"
    by blast
  then show "let s' = fetchWeather h fetch s2
          in locationName (panel s') = ''Could not find '' @ dquote @ city_v2 s2 @ dquote
             \<and> sentinelFields (panel s')
             \<and> dailyCards s' = dailyCards s2 \<and> hourlyCards s' = hourlyCards s2
             \<and> localStorage s' = localStorage s2 \<and> loading s' = False
             \<and> (requests s' = requests s2 @ [weatherUrl (city_v2 s2)]
                 \<or> requests s' = requests s2 @ [weatherUrl (city_v2 s2), forecastUrl (city_v2 s2)])"
  proof cases
    case first
    then show ?thesis by (simp add: fetchWeather_first_fails)
  next
    case second
    then show ?thesis by (simp add: fetchWeather_second_fails)
  next
    case third
    then show ?thesis by (simp add: fetchWeather_no_list)
  qed
qed

theorem C9_fetch_failure_witness:
  "notFound (weatherUrl ''Atlantis'') = Http False (Some OtherJson)
   \<and> locationName (panel (fetchWeatherForCity utc notFound ''Atlantis'' shownApp))
       = ''Could not find weather for '' @ dquote @ ''Atlantis'' @ dquote
   \<and> mainTemperature (panel (fetchWeatherForCity utc notFound ''Atlantis'' shownApp)) = ''--'' @ deg
   \<and> locationName (panel (fetchWeather utc notFound shownApp_v2))
       = ''Could not find '' @ dquote @ ''Atlantis'' @ dquote
   \<and> precipitationValue (panel (fetchWeather utc notFound shownApp_v2)) = ''-- mm''"
proof -
  have a: "notFound (weatherUrl ''Atlantis'') = Http False (Some OtherJson)"
    by (simp add: notFound_def)
  have c: "city_v2 shownApp_v2 = ''Atlantis''" by (simp add: shownApp_v2_def)
  note t = C9_fetch_failure [where fetch = notFound and c = "''Atlantis''" and h = utc
      and s = shownApp and ?s2.0 = shownApp_v2, unfolded Let_def c]
  show ?thesis using t a by (simp add: sentinelFields_def)
qed

text \<open>
  Claim C9 as stated fails: after a non-success answer \<^verbatim>\<open>part_001\<close> does not show the
  text \<open>Could not find weather for X\<close>, and in both scripts the daily card of the
  earlier search still shows its maximum of 21 degrees instead of the sentinel.
\<close>

theorem C9_fetch_failure_counterexample:
  "locationName (panel (fetchWeather utc notFound shownApp_v2))
     \<noteq> ''Could not find weather for '' @ dquote @ ''Atlantis'' @ dquote
   \<and> locationName (panel (fetchWeather utc notFound shownApp_v2))
     \<noteq> ''Could not find weather for Atlantis''
   \<and> map dayTempMax (dailyCards (fetchWeather utc notFound shownApp_v2)) = [''21'' @ deg]
   \<and> map dayTempMax (dailyCards (fetchWeatherForCity utc notFound ''Atlantis'' shownApp))
       = [''21'' @ deg]"
proof -
  have c: "city_v2 shownApp_v2 = ''Atlantis''" by (simp add: shownApp_v2_def)
  have f: "notFound (weatherUrl ''Atlantis'') = NetworkError
           \<or> (\<exists>b. notFound (weatherUrl ''Atlantis'') = Http False b)"
    by (simp add: notFound_def)
  have v2: "fetchWeather utc notFound shownApp_v2
        = shownApp_v2\<lparr>requests := requests shownApp_v2 @ [weatherUrl ''Atlantis''],
              panel := showFetchError_v2 ''Atlantis'' (panel shownApp_v2), loading := False\<rparr>"
    using fetchWeather_first_fails [of notFound shownApp_v2 utc] f by (simp add: c)
  have v1: "fetchWeatherForCity utc notFound ''Atlantis'' shownApp
        = shownApp\<lparr>requests := requests shownApp @ [weatherUrl ''Atlantis''],
              panel := showFetchError ''Atlantis'' (panel shownApp)\<rparr>"
    using fetchWeatherForCity_first_fails [of notFound "''Atlantis''" utc shownApp] f by simp
  show ?thesis
    unfolding v1 v2
    by (simp add: dquote_def) (simp add: shownApp_def shownApp_v2_def shownCard_def)
qed

lemma fetchWeather_status_unchecked:
  assumes "fetch (weatherUrl (city_v2 s)) = Http True (Some (WeatherJson cur))"
    and "fetch (forecastUrl (city_v2 s)) = Http False (Some (ForecastJson l))"
  shows "localStorage (fetchWeather h fetch s) ''lastCity'' = Some (city_v2 s)
         \<and> panel (fetchWeather h fetch s)
             = updateCurrentWeather_v2 h (currentUnit s) (currentSpeedUnit s) cur (panel s)"
  using assms by (simp add: fetchWeather_def Let_def)

subsection \<open>The default city\<close>

lemma loadSettings_requests: "requests (snd (loadSettings s)) = requests s"
  by (simp add: loadSettings_def Let_def split: option.splits)

lemma loadSettings_location:
  "fst (loadSettings s) = orDefault (localStorage s ''lastLocation'') ''Cardiff''"
  by (simp add: loadSettings_def orDefault_def Let_def split: option.splits)

lemma fetchWeatherForCity_requests:
  "\<exists>rest. requests (fetchWeatherForCity h fetch c s) = requests s @ weatherUrl c # rest"
  by (auto simp: fetchWeatherForCity_def Let_def split: response.splits option.splits json.splits)

lemma fetchWeather_requests:
  "\<exists>rest. requests (fetchWeather h fetch s) = requests s @ weatherUrl (city_v2 s) # rest"
  by (auto simp: fetchWeather_def Let_def split: response.splits option.splits json.splits)

lemma initializeApp_requests:
  "\<exists>rest. requests (initializeApp h fetch s)
           = requests s @ weatherUrl (orDefault (localStorage s ''lastLocation'') ''Cardiff'') # rest"
proof -
  obtain l s' where ls: "loadSettings s = (l, s')" by (cases "loadSettings s")
  then have l: "l = orDefault (localStorage s ''lastLocation'') ''Cardiff''"
    using loadSettings_location [of s] by simp
  have r: "requests s' = requests s" using loadSettings_requests [of s] ls by simp
  show ?thesis
    using fetchWeatherForCity_requests [of h fetch l s'] by (simp add: initializeApp_def ls l r)
qed

lemma initializeApp_v2_requests:
  "\<exists>rest. requests (initializeApp_v2 h fetch s)
           = requests s @ weatherUrl (orDefault (localStorage s ''lastCity'') ''Cardiff'') # rest"
  unfolding initializeApp_v2_def
  using fetchWeather_requests [of h fetch
      "s\<lparr>city_v2 := orDefault (localStorage s ''lastCity'') ''Cardiff'',
         globalForecastData := None,
         currentUnit := orDefault (localStorage s ''tempUnit'') ''celsius'',
         currentSpeedUnit := orDefault (localStorage s ''windUnit'') ''mph'',
         currentTimeFormat := orDefault (localStorage s ''timeFormat'') ''12''\<rparr>"]
  by simp

text \<open>
  Claim C10. With no last-searched location in the persistent store, \<^verbatim>\<open>loadSettings\<close>
  returns \<open>Cardiff\<close> and the first request of the application is the current-weather
  request for Cardiff; a stored, non-empty location is returned and requested instead
  (an empty stored string counts as none). The start of \<^verbatim>\<open>part_001\<close> does the same
  with its key \<open>lastCity\<close>.
\<close>

theorem C10_default_city:
  fixes s :: app and s2 :: app_v2
  shows
  "(localStorage s ''lastLocation'' = None \<longrightarrow>
      fst (loadSettings s) = ''Cardiff''
      \<and> (\<exists>rest. requests (initializeApp h fetch s) = requests s @ weatherUrl ''Cardiff'' # rest))
   \<and> (localStorage s ''lastLocation'' = Some l \<and> l \<noteq> [] \<longrightarrow>
        fst (loadSettings s) = l
        \<and> (\<exists>rest. requests (initializeApp h fetch s) = requests s @ weatherUrl l # rest))
   \<and> (localStorage s ''lastLocation'' = Some [] \<longrightarrow> fst (loadSettings s) = ''Cardiff'')
   \<and> (localStorage s2 ''lastCity'' = None \<longrightarrow>
        (\<exists>rest. requests (initializeApp_v2 h fetch s2) = requests s2 @ weatherUrl ''Cardiff'' # rest))
   \<and> (localStorage s2 ''lastCity'' = Some l \<and> l \<noteq> [] \<longrightarrow>
        (\<exists>rest. requests (initializeApp_v2 h fetch s2) = requests s2 @ weatherUrl l # rest))"
  using initializeApp_requests [of h fetch s] initializeApp_v2_requests [of h fetch s2]
  by (auto simp: loadSettings_location orDefault_def)

theorem C10_default_city_witness:
  "localStorage shownApp ''lastLocation'' = None
   \<and> fst (loadSettings shownApp) = ''Cardiff''
   \<and> requests (initializeApp utc offline shownApp) = [weatherUrl ''Cardiff'']
   \<and> fst (loadSettings (shownApp\<lparr>localStorage := [''lastLocation'' \<mapsto> ''Oslo'']\<rparr>)) = ''Oslo''
   \<and> localStorage shownApp_v2 ''lastCity'' = None
   \<and> requests (initializeApp_v2 utc offline shownApp_v2) = [weatherUrl ''Cardiff'']"
proof -
  have a: "localStorage shownApp ''lastLocation'' = None" by (simp add: shownApp_def)
  have b: "localStorage (shownApp\<lparr>localStorage := [''lastLocation'' \<mapsto> ''Oslo'']\<rparr>) ''lastLocation''
           = Some ''Oslo''" by simp
  have c: "fst (loadSettings shownApp) = ''Cardiff''"
    using C10_default_city [where s = shownApp] a by simp
  have d: "fst (loadSettings (shownApp\<lparr>localStorage := [''lastLocation'' \<mapsto> ''Oslo'']\<rparr>)) = ''Oslo''"
    using C10_default_city [where s = "shownApp\<lparr>localStorage := [''lastLocation'' \<mapsto> ''Oslo'']\<rparr>"
        and l = "''Oslo''"] b
    by simp
  have s: "loadSettings shownApp = (''Cardiff'', shownApp)"
    by (simp add: loadSettings_def shownApp_def)
  have e: "requests (initializeApp utc offline shownApp) = [weatherUrl ''Cardiff'']"
    unfolding initializeApp_def s
    by (simp add: fetchWeatherForCity_def offline_def) (simp add: shownApp_def)
  have f: "localStorage shownApp_v2 ''lastCity'' = None" by (simp add: shownApp_v2_def)
  have g: "requests (initializeApp_v2 utc offline shownApp_v2) = [weatherUrl ''Cardiff'']"
    unfolding initializeApp_v2_def
    by (simp add: fetchWeather_def offline_def orDefault_def f) (simp add: shownApp_v2_def Let_def)
  show ?thesis using a c d e f g by simp
qed

end
